theory Spec2Isabelle
  imports
    Complex_Main
    "HOL-Library.Sublist"
    "HOL-Library.Char_ord"
    "HOL-Library.List_Lexorder"
    "HOL-Library.AList"
begin

section \<open>Data model (\<^verbatim>\<open>src/models.py\<close>)\<close>

text \<open>
  The enumerations are Python \<^verbatim>\<open>str\<close>-valued enums: every member carries a string
  \<^verbatim>\<open>.value\<close>. Members are compared for equality as enum members; the strings matter
  wherever the code reads \<^verbatim>\<open>.value\<close>.
\<close>

datatype EngineType = PETROL | DIESEL | HYBRID | ELECTRIC

datatype ExperienceLevel = BEGINNER | INTERMEDIATE | ADVANCED

datatype DrivingGoal = PERFORMANCE | FUEL_ECONOMY | DAILY_COMFORT | TRACK_USE | OFF_ROADING

datatype BudgetRange = BUDGET | MODERATE | PREMIUM | UNLIMITED

datatype TuningCategory =
  ECU_REMAPPING | EXHAUST_SYSTEM | SUSPENSION | AIR_INTAKE | TIRES_WHEELS | BRAKE_SYSTEM | COSMETIC

datatype SafetyLevel = LOW | MEDIUM | HIGH

fun SafetyLevel_value :: "SafetyLevel \<Rightarrow> string" where
  "SafetyLevel_value LOW = ''low''"
| "SafetyLevel_value MEDIUM = ''medium''"
| "SafetyLevel_value HIGH = ''high''"

fun TuningCategory_value :: "TuningCategory \<Rightarrow> string" where
  "TuningCategory_value ECU_REMAPPING = ''ecu_remapping''"
| "TuningCategory_value EXHAUST_SYSTEM = ''exhaust_system''"
| "TuningCategory_value SUSPENSION = ''suspension''"
| "TuningCategory_value AIR_INTAKE = ''air_intake''"
| "TuningCategory_value TIRES_WHEELS = ''tires_wheels''"
| "TuningCategory_value BRAKE_SYSTEM = ''brake_system''"
| "TuningCategory_value COSMETIC = ''cosmetic''"

text \<open>
  Python floats and the integer literals of the catalogue are modelled as exact rationals;
  floating-point rounding is not part of the model.
\<close>

record CarInfo =
  car_make :: string
  model :: string
  year :: int
  engine_type :: EngineType
  current_modifications :: "string list option"

record UserPreferences =
  primary_goals :: "DrivingGoal list"
  budget_range :: BudgetRange
  experience_level :: ExperienceLevel
  max_budget :: "rat option"

text \<open>A cost range is the dictionary \<^verbatim>\<open>{"min": ..., "max": ...}\<close>.\<close>

record CostRange =
  cost_min :: rat
  cost_max :: rat

text \<open>
  A catalogue entry is a dictionary with the keys below. A \<^verbatim>\<open>TuningRecommendation\<close> has
  the same fields and a category.
\<close>

record TuningOption =
  name :: string
  description :: string
  benefits :: "string list"
  cost_range :: CostRange
  compatibility_notes :: "string list"
  prerequisites :: "string list"
  safety_warnings :: "string list"
  legal_considerations :: "string list"
  warranty_impact :: string
  emissions_impact :: string
  insurance_impact :: string
  priority_score :: rat
  safety_level :: SafetyLevel
  installation_difficulty :: string
  professional_required :: bool

record TuningRecommendation = TuningOption +
  category :: TuningCategory

record TotalCost =
  total_min :: rat
  total_max :: rat
  currency :: string

text \<open>
  The summaries are built with \<^verbatim>\<open>list(set(...))\<close>: duplicate-free, in no specified order.
  They are modelled as sets.
\<close>

record SafetySummary =
  high_risk :: "string set"
  medium_risk :: "string set"
  low_risk :: "string set"

record LegalSummary =
  warranty_impacts :: "string set"
  emissions_impacts :: "string set"
  insurance_impacts :: "string set"
  legal_considerations_summary :: "string set"

record TuningReport =
  car_info :: CarInfo
  user_preferences :: UserPreferences
  recommendations :: "TuningRecommendation list"
  total_estimated_cost :: TotalCost
  compatibility_matrix :: "(string \<times> string list) list"
  safety_summary :: SafetySummary
  legal_summary :: LegalSummary
  disclaimer :: string
  generated_at :: string

datatype py_error = KeyError


section \<open>Knowledge base (\<^verbatim>\<open>src/knowledge_base.py\<close>)\<close>

text \<open>
  \<^verbatim>\<open>_initialize_tuning_options\<close>: the dictionary literal, one constant per entry, in
  the order of the source.
\<close>

definition stage_1_ecu_remap :: TuningOption where
  "stage_1_ecu_remap = \<lparr>
     name = ''Stage 1 ECU Remap'',
     description = ''Optimizes fuel injection, ignition timing, and boost pressure for improved performance'',
     benefits = [''10-20% power increase'', ''Better throttle response'', ''Improved fuel efficiency''],
     cost_range = \<lparr>cost_min = 300, cost_max = 800\<rparr>,
     compatibility_notes = [''Compatible with most modern petrol and diesel engines'', ''Requires OBD-II port''],
     prerequisites = [''Stock engine in good condition'', ''No existing ECU modifications''],
     safety_warnings = [''May void warranty'', ''Ensure professional installation''],
     legal_considerations = [''Check local emissions laws'', ''May affect insurance''],
     warranty_impact = ''Likely to void powertrain warranty'',
     emissions_impact = ''May affect emissions compliance'',
     insurance_impact = ''May require insurance notification'',
     priority_score = 9.0,
     safety_level = MEDIUM,
     installation_difficulty = ''Professional installation required'',
     professional_required = True\<rparr>"

definition stage_2_ecu_remap :: TuningOption where
  "stage_2_ecu_remap = \<lparr>
     name = ''Stage 2 ECU Remap'',
     description = ''Advanced ECU tuning for modified engines with supporting hardware'',
     benefits = [''20-35% power increase'', ''Enhanced torque delivery'', ''Customizable power curves''],
     cost_range = \<lparr>cost_min = 500, cost_max = 1200\<rparr>,
     compatibility_notes = [''Requires supporting modifications'', ''Not suitable for stock engines''],
     prerequisites = [''Stage 1 remap'', ''Upgraded air intake'', ''Performance exhaust''],
     safety_warnings = [''High risk of engine damage if not properly tuned'', ''Requires supporting hardware''],
     legal_considerations = [''Likely illegal for road use'', ''Track use only''],
     warranty_impact = ''Will void warranty'',
     emissions_impact = ''Will fail emissions testing'',
     insurance_impact = ''Will affect insurance coverage'',
     priority_score = 8.5,
     safety_level = HIGH,
     installation_difficulty = ''Professional installation required'',
     professional_required = True\<rparr>"

definition performance_exhaust_system :: TuningOption where
  "performance_exhaust_system = \<lparr>
     name = ''Performance Exhaust System'',
     description = ''Replaces stock exhaust with high-flow system for better performance and sound'',
     benefits = [''5-15% power increase'', ''Improved exhaust flow'', ''Enhanced engine sound''],
     cost_range = \<lparr>cost_min = 400, cost_max = 2000\<rparr>,
     compatibility_notes = [''Compatible with most vehicles'', ''Check local noise regulations''],
     prerequisites = [''Stock exhaust system''],
     safety_warnings = [''Ensure proper fitment'', ''Check for leaks after installation''],
     legal_considerations = [''Check local noise regulations'', ''May require emissions testing''],
     warranty_impact = ''May affect exhaust warranty'',
     emissions_impact = ''May affect emissions compliance'',
     insurance_impact = ''Minimal impact'',
     priority_score = 7.5,
     safety_level = LOW,
     installation_difficulty = ''Moderate - professional recommended'',
     professional_required = False\<rparr>"

definition cat_back_exhaust_system :: TuningOption where
  "cat_back_exhaust_system = \<lparr>
     name = ''Cat-Back Exhaust System'',
     description = ''Replaces exhaust from catalytic converter back for improved flow'',
     benefits = [''3-8% power increase'', ''Better exhaust flow'', ''Sportier sound''],
     cost_range = \<lparr>cost_min = 300, cost_max = 1500\<rparr>,
     compatibility_notes = [''Maintains catalytic converter'', ''Generally street legal''],
     prerequisites = [''Stock exhaust system''],
     safety_warnings = [''Ensure proper fitment'', ''Check for leaks''],
     legal_considerations = [''Generally street legal'', ''Check local regulations''],
     warranty_impact = ''Minimal impact'',
     emissions_impact = ''Minimal impact'',
     insurance_impact = ''Minimal impact'',
     priority_score = 7.0,
     safety_level = LOW,
     installation_difficulty = ''Moderate'',
     professional_required = False\<rparr>"

definition cold_air_intake_system :: TuningOption where
  "cold_air_intake_system = \<lparr>
     name = ''Cold Air Intake System'',
     description = ''Replaces stock air filter with high-flow system for better air delivery'',
     benefits = [''3-8% power increase'', ''Improved throttle response'', ''Better engine breathing''],
     cost_range = \<lparr>cost_min = 150, cost_max = 500\<rparr>,
     compatibility_notes = [''Compatible with most vehicles'', ''Check engine bay space''],
     prerequisites = [''Stock air intake system''],
     safety_warnings = [''Ensure proper fitment'', ''Check for air leaks''],
     legal_considerations = [''Generally street legal'', ''May require CARB approval''],
     warranty_impact = ''Minimal impact'',
     emissions_impact = ''Minimal impact'',
     insurance_impact = ''Minimal impact'',
     priority_score = 6.5,
     safety_level = LOW,
     installation_difficulty = ''Easy to moderate'',
     professional_required = False\<rparr>"

definition performance_air_filter :: TuningOption where
  "performance_air_filter = \<lparr>
     name = ''Performance Air Filter'',
     description = ''High-flow air filter for improved air flow'',
     benefits = [''1-3% power increase'', ''Better air flow'', ''Reusable''],
     cost_range = \<lparr>cost_min = 50, cost_max = 200\<rparr>,
     compatibility_notes = [''Compatible with most vehicles'', ''Check filter size''],
     prerequisites = [''Stock air filter''],
     safety_warnings = [''Ensure proper fitment'', ''Regular cleaning required''],
     legal_considerations = [''Generally street legal''],
     warranty_impact = ''Minimal impact'',
     emissions_impact = ''No impact'',
     insurance_impact = ''No impact'',
     priority_score = 5.0,
     safety_level = LOW,
     installation_difficulty = ''Easy'',
     professional_required = False\<rparr>"

definition lowering_springs :: TuningOption where
  "lowering_springs = \<lparr>
     name = ''Lowering Springs'',
     description = ''Lower ride height and improve handling with stiffer springs'',
     benefits = [''Improved handling'', ''Lower center of gravity'', ''Sportier appearance''],
     cost_range = \<lparr>cost_min = 200, cost_max = 800\<rparr>,
     compatibility_notes = [''Check spring rates for your vehicle'', ''May require shock upgrades''],
     prerequisites = [''Stock suspension''],
     safety_warnings = [''May affect ride quality'', ''Check ground clearance''],
     legal_considerations = [''Check local height restrictions'', ''May affect safety inspections''],
     warranty_impact = ''May affect suspension warranty'',
     emissions_impact = ''No impact'',
     insurance_impact = ''Minimal impact'',
     priority_score = 6.0,
     safety_level = MEDIUM,
     installation_difficulty = ''Moderate - professional recommended'',
     professional_required = False\<rparr>"

definition coilover_suspension :: TuningOption where
  "coilover_suspension = \<lparr>
     name = ''Coilover Suspension'',
     description = ''Adjustable suspension system for maximum handling and ride height control'',
     benefits = [''Fully adjustable ride height'', ''Improved handling'', ''Customizable damping''],
     cost_range = \<lparr>cost_min = 800, cost_max = 3000\<rparr>,
     compatibility_notes = [''Check vehicle compatibility'', ''Professional setup recommended''],
     prerequisites = [''Stock suspension''],
     safety_warnings = [''Professional installation required'', ''Proper setup critical''],
     legal_considerations = [''Check local height restrictions'', ''May require certification''],
     warranty_impact = ''Will affect suspension warranty'',
     emissions_impact = ''No impact'',
     insurance_impact = ''May affect insurance'',
     priority_score = 7.5,
     safety_level = MEDIUM,
     installation_difficulty = ''Professional installation required'',
     professional_required = True\<rparr>"

definition performance_tires :: TuningOption where
  "performance_tires = \<lparr>
     name = ''Performance Tires'',
     description = ''High-performance tires for improved grip and handling'',
     benefits = [''Better grip'', ''Improved handling'', ''Shorter braking distances''],
     cost_range = \<lparr>cost_min = 400, cost_max = 1200\<rparr>,
     compatibility_notes = [''Check tire size compatibility'', ''Consider wheel size''],
     prerequisites = [''Compatible wheels''],
     safety_warnings = [''Shorter tread life'', ''May affect ride quality''],
     legal_considerations = [''Must meet DOT standards'', ''Check local regulations''],
     warranty_impact = ''No impact'',
     emissions_impact = ''No impact'',
     insurance_impact = ''No impact'',
     priority_score = 8.0,
     safety_level = LOW,
     installation_difficulty = ''Professional installation recommended'',
     professional_required = False\<rparr>"

definition lightweight_wheels :: TuningOption where
  "lightweight_wheels = \<lparr>
     name = ''Lightweight Wheels'',
     description = ''Lightweight alloy wheels for reduced unsprung weight'',
     benefits = [''Reduced unsprung weight'', ''Improved handling'', ''Better acceleration''],
     cost_range = \<lparr>cost_min = 600, cost_max = 2000\<rparr>,
     compatibility_notes = [''Check bolt pattern and offset'', ''Consider tire compatibility''],
     prerequisites = [''Compatible bolt pattern''],
     safety_warnings = [''Ensure proper fitment'', ''Check load rating''],
     legal_considerations = [''Must meet safety standards'', ''Check local regulations''],
     warranty_impact = ''No impact'',
     emissions_impact = ''No impact'',
     insurance_impact = ''No impact'',
     priority_score = 6.5,
     safety_level = LOW,
     installation_difficulty = ''Professional installation recommended'',
     professional_required = False\<rparr>"

definition performance_brake_pads :: TuningOption where
  "performance_brake_pads = \<lparr>
     name = ''Performance Brake Pads'',
     description = ''High-performance brake pads for improved stopping power'',
     benefits = [''Better stopping power'', ''Improved fade resistance'', ''Better pedal feel''],
     cost_range = \<lparr>cost_min = 100, cost_max = 400\<rparr>,
     compatibility_notes = [''Check pad compatibility'', ''May require rotor upgrade''],
     prerequisites = [''Stock brake system''],
     safety_warnings = [''May produce more dust'', ''Bed-in procedure required''],
     legal_considerations = [''Must meet safety standards''],
     warranty_impact = ''May affect brake warranty'',
     emissions_impact = ''No impact'',
     insurance_impact = ''No impact'',
     priority_score = 7.0,
     safety_level = MEDIUM,
     installation_difficulty = ''Moderate - professional recommended'',
     professional_required = False\<rparr>"

definition big_brake_kit :: TuningOption where
  "big_brake_kit = \<lparr>
     name = ''Big Brake Kit'',
     description = ''Larger brake rotors and calipers for maximum stopping power'',
     benefits = [''Maximum stopping power'', ''Better heat dissipation'', ''Improved fade resistance''],
     cost_range = \<lparr>cost_min = 1500, cost_max = 5000\<rparr>,
     compatibility_notes = [''Check wheel clearance'', ''May require wheel upgrade''],
     prerequisites = [''Compatible wheels'', ''Sufficient wheel clearance''],
     safety_warnings = [''Professional installation required'', ''Proper bleeding critical''],
     legal_considerations = [''Must meet safety standards'', ''May require certification''],
     warranty_impact = ''Will affect brake warranty'',
     emissions_impact = ''No impact'',
     insurance_impact = ''May affect insurance'',
     priority_score = 8.5,
     safety_level = HIGH,
     installation_difficulty = ''Professional installation required'',
     professional_required = True\<rparr>"

definition body_kit :: TuningOption where
  "body_kit = \<lparr>
     name = ''Body Kit'',
     description = ''Aesthetic modifications for improved appearance'',
     benefits = [''Improved appearance'', ''Better aerodynamics'', ''Personalization''],
     cost_range = \<lparr>cost_min = 500, cost_max = 3000\<rparr>,
     compatibility_notes = [''Check fitment'', ''May require paint matching''],
     prerequisites = [''Stock body panels''],
     safety_warnings = [''Ensure proper fitment'', ''Check for sharp edges''],
     legal_considerations = [''Check local regulations'', ''May require certification''],
     warranty_impact = ''No impact on mechanical warranty'',
     emissions_impact = ''No impact'',
     insurance_impact = ''May affect insurance'',
     priority_score = 3.0,
     safety_level = LOW,
     installation_difficulty = ''Moderate - professional recommended'',
     professional_required = False\<rparr>"

definition tuning_options :: "(TuningCategory \<times> TuningOption list) list" where
  "tuning_options = [
     (ECU_REMAPPING, [stage_1_ecu_remap, stage_2_ecu_remap]),
     (EXHAUST_SYSTEM, [performance_exhaust_system, cat_back_exhaust_system]),
     (AIR_INTAKE, [cold_air_intake_system, performance_air_filter]),
     (SUSPENSION, [lowering_springs, coilover_suspension]),
     (TIRES_WHEELS, [performance_tires, lightweight_wheels]),
     (BRAKE_SYSTEM, [performance_brake_pads, big_brake_kit]),
     (COSMETIC, [body_kit])]"

text \<open>\<^verbatim>\<open>_initialize_compatibility_matrix\<close>\<close>

definition kb_compatibility_matrix :: "(string \<times> string list) list" where
  "kb_compatibility_matrix = [
     (''ecu_remapping'', [''air_intake'', ''exhaust_system'']),
     (''exhaust_system'', [''ecu_remapping'', ''air_intake'']),
     (''air_intake'', [''ecu_remapping'', ''exhaust_system'']),
     (''suspension'', [''tires_wheels'', ''brake_system'']),
     (''tires_wheels'', [''suspension'', ''brake_system'']),
     (''brake_system'', [''suspension'', ''tires_wheels'']),
     (''cosmetic'', [])]"

text \<open>\<^verbatim>\<open>_get_budget_ranges\<close>\<close>

definition budget_ranges :: "(BudgetRange \<times> CostRange) list" where
  "budget_ranges = [
     (BUDGET, \<lparr>cost_min = 500, cost_max = 2000\<rparr>),
     (MODERATE, \<lparr>cost_min = 2000, cost_max = 8000\<rparr>),
     (PREMIUM, \<lparr>cost_min = 8000, cost_max = 20000\<rparr>),
     (UNLIMITED, \<lparr>cost_min = 20000, cost_max = 100000\<rparr>)]"

text \<open>The accessors are \<^verbatim>\<open>dict.get\<close> with a default.\<close>

definition get_tuning_options_for_category :: "TuningCategory \<Rightarrow> TuningOption list" where
  "get_tuning_options_for_category cat =
     (case map_of tuning_options cat of None \<Rightarrow> [] | Some opts \<Rightarrow> opts)"

definition get_compatible_modifications :: "string \<Rightarrow> string list" where
  "get_compatible_modifications modification =
     (case map_of kb_compatibility_matrix modification of None \<Rightarrow> [] | Some ms \<Rightarrow> ms)"

definition get_budget_range :: "BudgetRange \<Rightarrow> CostRange" where
  "get_budget_range b =
     (case map_of budget_ranges b of
        None \<Rightarrow> \<lparr>cost_min = 0, cost_max = 0\<rparr>
      | Some r \<Rightarrow> r)"


section \<open>Recommendation engine (\<^verbatim>\<open>src/recommendation_engine.py\<close>)\<close>

text \<open>\<^verbatim>\<open>_initialize_goal_priorities\<close>\<close>

definition goal_priorities :: "(DrivingGoal \<times> TuningCategory list) list" where
  "goal_priorities = [
     (PERFORMANCE,
        [ECU_REMAPPING, EXHAUST_SYSTEM, AIR_INTAKE, TIRES_WHEELS, BRAKE_SYSTEM, SUSPENSION,
         COSMETIC]),
     (FUEL_ECONOMY, [ECU_REMAPPING, AIR_INTAKE, TIRES_WHEELS, COSMETIC]),
     (DAILY_COMFORT, [SUSPENSION, TIRES_WHEELS, COSMETIC]),
     (TRACK_USE,
        [ECU_REMAPPING, BRAKE_SYSTEM, SUSPENSION, TIRES_WHEELS, EXHAUST_SYSTEM, AIR_INTAKE,
         COSMETIC]),
     (OFF_ROADING, [SUSPENSION, TIRES_WHEELS, BRAKE_SYSTEM, COSMETIC])]"

text \<open>\<^verbatim>\<open>_initialize_experience_filters\<close>\<close>

record ExperienceFilter =
  max_safety_level :: SafetyLevel
  max_priority_score :: rat
  prefer_professional_installation :: bool
  avoid_high_risk_mods :: bool

definition experience_filters :: "(ExperienceLevel \<times> ExperienceFilter) list" where
  "experience_filters = [
     (BEGINNER,
        \<lparr>max_safety_level = MEDIUM, max_priority_score = 7.0,
         prefer_professional_installation = True, avoid_high_risk_mods = True\<rparr>),
     (INTERMEDIATE,
        \<lparr>max_safety_level = HIGH, max_priority_score = 8.5,
         prefer_professional_installation = False, avoid_high_risk_mods = False\<rparr>),
     (ADVANCED,
        \<lparr>max_safety_level = HIGH, max_priority_score = 10.0,
         prefer_professional_installation = False, avoid_high_risk_mods = False\<rparr>)]"

text \<open>
  \<^verbatim>\<open>_passes_experience_filters\<close>. The condition of its first \<^verbatim>\<open>if\<close>, the safety
  ceiling, is \<^verbatim>\<open>exceeds_max_safety_level\<close>: it compares the \<^verbatim>\<open>.value\<close> strings of the
  two enum members with Python's \<^verbatim>\<open>>\<close> on \<^verbatim>\<open>str\<close>, which is the lexicographic order
  on code points: the order of \<^typ>\<open>string\<close> used here.
\<close>

definition exceeds_max_safety_level :: "TuningOption \<Rightarrow> ExperienceFilter \<Rightarrow> bool" where
  "exceeds_max_safety_level opt filters \<longleftrightarrow>
     SafetyLevel_value (safety_level opt) > SafetyLevel_value (max_safety_level filters)"

definition passes_experience_filters :: "TuningOption \<Rightarrow> ExperienceFilter \<Rightarrow> bool" where
  "passes_experience_filters opt filters =
     (if exceeds_max_safety_level opt filters then False
      else if priority_score opt > max_priority_score filters then False
      else if avoid_high_risk_mods filters \<and> safety_level opt = HIGH then False
      else True)"

text \<open>
  \<^verbatim>\<open>_is_compatible_with_engine\<close>. Python's \<^verbatim>\<open>"ECU" in name\<close> is the contiguous
  substring test, \<^const>\<open>sublist\<close>. The hybrid branch of the source is \<^verbatim>\<open>pass\<close>.
\<close>

definition is_compatible_with_engine :: "TuningOption \<Rightarrow> EngineType \<Rightarrow> bool" where
  "is_compatible_with_engine opt engine =
     (if sublist ''ECU'' (name opt) \<and> engine = ELECTRIC then False else True)"

text \<open>\<^verbatim>\<open>_adjust_priority_score\<close>\<close>

definition adjust_priority_score ::
  "TuningRecommendation \<Rightarrow> DrivingGoal \<Rightarrow> UserPreferences \<Rightarrow> rat" where
  "adjust_priority_score recommendation goal preferences =
     (let base_score = priority_score recommendation;
          base_score = (if goal \<in> set (primary_goals preferences)
                        then base_score * 1.2 else base_score);
          base_score = (if experience_level preferences = BEGINNER
                           \<and> safety_level recommendation = HIGH
                        then base_score * 0.7 else base_score);
          base_score = (if budget_range preferences = BUDGET
                           \<and> cost_max (cost_range recommendation) < 1000
                        then base_score * 1.1 else base_score)
      in min base_score 10.0)"

text \<open>
  \<^verbatim>\<open>_generate_goal_recommendations\<close>. The body of the innermost loop: \<open>None\<close> is a
  \<^verbatim>\<open>continue\<close>, \<open>Some\<close> the recommendation appended.
\<close>

definition consider_option ::
  "CarInfo \<Rightarrow> UserPreferences \<Rightarrow> DrivingGoal \<Rightarrow> rat \<Rightarrow> ExperienceFilter \<Rightarrow>
   TuningCategory \<Rightarrow> TuningOption \<Rightarrow> TuningRecommendation option" where
  "consider_option car prefs goal max_budget_limit filters cat opt =
     (if \<not> passes_experience_filters opt filters then None
      else if cost_max (cost_range opt) > max_budget_limit then None
      else if \<not> is_compatible_with_engine opt (engine_type car) then None
      else
        let recommendation = \<lparr>
              name = name opt,
              description = description opt,
              benefits = benefits opt,
              cost_range = cost_range opt,
              compatibility_notes = compatibility_notes opt,
              prerequisites = prerequisites opt,
              safety_warnings = safety_warnings opt,
              legal_considerations = legal_considerations opt,
              warranty_impact = warranty_impact opt,
              emissions_impact = emissions_impact opt,
              insurance_impact = insurance_impact opt,
              priority_score = priority_score opt,
              safety_level = safety_level opt,
              installation_difficulty = installation_difficulty opt,
              professional_required = professional_required opt,
              category = cat\<rparr>;
            adjusted_score = adjust_priority_score recommendation goal prefs
        in Some (recommendation\<lparr>priority_score := adjusted_score\<rparr>))"

fun options_loop ::
  "CarInfo \<Rightarrow> UserPreferences \<Rightarrow> DrivingGoal \<Rightarrow> rat \<Rightarrow> ExperienceFilter \<Rightarrow>
   TuningCategory \<Rightarrow> TuningOption list \<Rightarrow> TuningRecommendation list" where
  "options_loop car prefs goal mb filters cat [] = []"
| "options_loop car prefs goal mb filters cat (opt # opts) =
     (case consider_option car prefs goal mb filters cat opt of
        None \<Rightarrow> options_loop car prefs goal mb filters cat opts
      | Some r \<Rightarrow> r # options_loop car prefs goal mb filters cat opts)"

fun categories_loop ::
  "CarInfo \<Rightarrow> UserPreferences \<Rightarrow> DrivingGoal \<Rightarrow> rat \<Rightarrow> ExperienceFilter \<Rightarrow>
   TuningCategory list \<Rightarrow> TuningRecommendation list" where
  "categories_loop car prefs goal mb filters [] = []"
| "categories_loop car prefs goal mb filters (cat # cats) =
     options_loop car prefs goal mb filters cat (get_tuning_options_for_category cat)
       @ categories_loop car prefs goal mb filters cats"

text \<open>\<^verbatim>\<open>self.goal_priorities[goal]\<close> raises \<^verbatim>\<open>KeyError\<close> on a missing key.\<close>

definition generate_goal_recommendations ::
  "CarInfo \<Rightarrow> UserPreferences \<Rightarrow> DrivingGoal \<Rightarrow> rat \<Rightarrow> ExperienceFilter \<Rightarrow>
   py_error + TuningRecommendation list" where
  "generate_goal_recommendations car prefs goal mb filters =
     (case map_of goal_priorities goal of
        None \<Rightarrow> Inl KeyError
      | Some priority_categories \<Rightarrow>
          Inr (categories_loop car prefs goal mb filters priority_categories))"

text \<open>\<^verbatim>\<open>_deduplicate_recommendations\<close>, with the set \<^verbatim>\<open>seen\<close> passed along.\<close>

fun dedup_loop ::
  "(TuningCategory \<times> string) set \<Rightarrow> TuningRecommendation list \<Rightarrow> TuningRecommendation list"
  where
  "dedup_loop seen [] = []"
| "dedup_loop seen (r # rs) =
     (let key = (category r, name r)
      in if key \<notin> seen then r # dedup_loop (insert key seen) rs else dedup_loop seen rs)"

definition deduplicate_recommendations ::
  "TuningRecommendation list \<Rightarrow> TuningRecommendation list" where
  "deduplicate_recommendations rs = dedup_loop {} rs"

text \<open>
  Python's built-in \<^verbatim>\<open>sorted(xs, key=f, reverse=True)\<close>: a stable sort in descending
  order of the key that keeps the original order of elements with equal keys. CPython
  reverses the list, sorts it stably in ascending order, and reverses the result.
\<close>

definition py_sorted_reverse :: "('a \<Rightarrow> 'k::linorder) \<Rightarrow> 'a list \<Rightarrow> 'a list" where
  "py_sorted_reverse f xs = rev (sort_key f (rev xs))"

text \<open>\<^verbatim>\<open>_filter_by_budget\<close>, with the running \<^verbatim>\<open>total_cost\<close> passed along.\<close>

fun budget_loop ::
  "rat \<Rightarrow> rat \<Rightarrow> TuningRecommendation list \<Rightarrow> TuningRecommendation list" where
  "budget_loop mb total_cost [] = []"
| "budget_loop mb total_cost (r # rs) =
     (if total_cost + cost_max (cost_range r) \<le> mb
        then r # budget_loop mb (total_cost + cost_max (cost_range r)) rs
      else if total_cost + cost_min (cost_range r) \<le> mb
        then r # budget_loop mb (total_cost + cost_min (cost_range r)) rs
      else budget_loop mb total_cost rs)"

definition filter_by_budget ::
  "TuningRecommendation list \<Rightarrow> rat \<Rightarrow> TuningRecommendation list" where
  "filter_by_budget rs mb = take 10 (budget_loop mb 0 rs)"

text \<open>\<^verbatim>\<open>_calculate_total_cost\<close>\<close>

definition calculate_total_cost :: "TuningRecommendation list \<Rightarrow> TotalCost" where
  "calculate_total_cost rs =
     (let min_total = sum_list (map (\<lambda>r. cost_min (cost_range r)) rs);
          max_total = sum_list (map (\<lambda>r. cost_max (cost_range r)) rs)
      in \<lparr>total_min = min_total, total_max = max_total, currency = ''USD''\<rparr>)"

text \<open>
  \<^verbatim>\<open>_generate_compatibility_matrix\<close>. Assigning to a dictionary key keeps the position
  of a key already present and appends a new one, as \<^const>\<open>AList.update\<close> does.
\<close>

fun compatibility_loop ::
  "(string \<times> string list) list \<Rightarrow> TuningRecommendation list \<Rightarrow> (string \<times> string list) list"
  where
  "compatibility_loop matrix [] = matrix"
| "compatibility_loop matrix (r # rs) =
     (let category_key = TuningCategory_value (category r);
          compatible_mods = get_compatible_modifications category_key
      in compatibility_loop (AList.update (name r) compatible_mods matrix) rs)"

definition generate_compatibility_matrix ::
  "TuningRecommendation list \<Rightarrow> (string \<times> string list) list" where
  "generate_compatibility_matrix rs = compatibility_loop [] rs"

text \<open>\<^verbatim>\<open>_generate_safety_summary\<close>\<close>

fun safety_loop ::
  "string list \<Rightarrow> string list \<Rightarrow> string list \<Rightarrow> TuningRecommendation list \<Rightarrow>
   string list \<times> string list \<times> string list" where
  "safety_loop high medium low [] = (high, medium, low)"
| "safety_loop high medium low (r # rs) =
     (if safety_level r = HIGH then safety_loop (high @ safety_warnings r) medium low rs
      else if safety_level r = MEDIUM then safety_loop high (medium @ safety_warnings r) low rs
      else safety_loop high medium (low @ safety_warnings r) rs)"

definition generate_safety_summary :: "TuningRecommendation list \<Rightarrow> SafetySummary" where
  "generate_safety_summary rs =
     (case safety_loop [] [] [] rs of
        (high, medium, low) \<Rightarrow>
          \<lparr>high_risk = set high, medium_risk = set medium, low_risk = set low\<rparr>)"

text \<open>\<^verbatim>\<open>_generate_legal_summary\<close>\<close>

fun legal_loop ::
  "string list \<Rightarrow> string list \<Rightarrow> string list \<Rightarrow> string list \<Rightarrow> TuningRecommendation list \<Rightarrow>
   string list \<times> string list \<times> string list \<times> string list" where
  "legal_loop w e i l [] = (w, e, i, l)"
| "legal_loop w e i l (r # rs) =
     (let w' = (if warranty_impact r \<noteq> ''No impact''
                then w @ [name r @ '': '' @ warranty_impact r] else w);
          e' = (if emissions_impact r \<noteq> ''No impact''
                then e @ [name r @ '': '' @ emissions_impact r] else e);
          i' = (if insurance_impact r \<noteq> ''No impact''
                then i @ [name r @ '': '' @ insurance_impact r] else i)
      in legal_loop w' e' i' (l @ legal_considerations r) rs)"

definition generate_legal_summary :: "TuningRecommendation list \<Rightarrow> LegalSummary" where
  "generate_legal_summary rs =
     (case legal_loop [] [] [] [] rs of
        (w, e, i, l) \<Rightarrow>
          \<lparr>warranty_impacts = set w, emissions_impacts = set e, insurance_impacts = set i,
           legal_considerations_summary = set l\<rparr>)"

text \<open>\<^verbatim>\<open>_generate_disclaimer\<close>: the fixed text after \<^verbatim>\<open>strip()\<close>, line by line.\<close>

definition disclaimer_lines :: "string list" where
  "disclaimer_lines = [
     ''IMPORTANT DISCLAIMER:'',
     [],
     ''This report provides general recommendations for car modifications and should not be considered as professional automotive advice. '',
     [],
     ''SAFETY WARNINGS:'',
     ''- All modifications should be performed by qualified professionals'',
     ''- Modifications may affect vehicle safety and handling characteristics'',
     ''- Test all modifications in safe conditions before regular use'',
     ''- Some modifications may void vehicle warranty'',
     ''- Performance modifications may affect emissions compliance'',
     [],
     ''LEGAL CONSIDERATIONS:'',
     ''- Check local laws and regulations before making modifications'',
     ''- Some modifications may be illegal for road use'',
     ''- Notify your insurance company of any modifications'',
     ''- Ensure modifications meet local safety standards'',
     [],
     ''PROFESSIONAL CONSULTATION:'',
     ''- Always consult with qualified automotive professionals'',
     ''- Have modifications inspected by certified technicians'',
     ''- Keep original parts for potential reversion'',
     ''- Regular maintenance is critical for modified vehicles'',
     [],
     ''The authors are not responsible for any damage, injury, or legal issues resulting from these modifications.'']"

fun join_lines :: "string list \<Rightarrow> string" where
  "join_lines [] = []"
| "join_lines [l] = l"
| "join_lines (l # ls) = l @ [CHR 0x0A] @ join_lines ls"

definition generate_disclaimer :: "CarInfo \<Rightarrow> UserPreferences \<Rightarrow> string" where
  "generate_disclaimer car prefs = join_lines disclaimer_lines"

text \<open>
  \<^verbatim>\<open>generate_recommendations\<close>, lines 89 to 91: \<^verbatim>\<open>a or b\<close> is \<^verbatim>\<open>b\<close> when \<^verbatim>\<open>a\<close> is
  \<^verbatim>\<open>None\<close> or a zero float, and \<^verbatim>\<open>a\<close> otherwise.
\<close>

definition py_or :: "rat option \<Rightarrow> rat \<Rightarrow> rat" where
  "py_or a b = (case a of None \<Rightarrow> b | Some x \<Rightarrow> if x = 0 then b else x)"

definition resolve_max_budget :: "UserPreferences \<Rightarrow> rat" where
  "resolve_max_budget prefs =
     (let range = get_budget_range (budget_range prefs)
      in py_or (max_budget prefs) (cost_max range))"

text \<open>Lines 96 to 102: the loop over the goals, stopping at the first error.\<close>

fun goals_loop ::
  "CarInfo \<Rightarrow> UserPreferences \<Rightarrow> rat \<Rightarrow> ExperienceFilter \<Rightarrow> DrivingGoal list \<Rightarrow>
   py_error + TuningRecommendation list" where
  "goals_loop car prefs mb filters [] = Inr []"
| "goals_loop car prefs mb filters (goal # goals) =
     (case generate_goal_recommendations car prefs goal mb filters of
        Inl e \<Rightarrow> Inl e
      | Inr goal_recommendations \<Rightarrow>
          (case goals_loop car prefs mb filters goals of
             Inl e \<Rightarrow> Inl e
           | Inr rest \<Rightarrow> Inr (goal_recommendations @ rest)))"

text \<open>
  Lines 89 to 102: the working list \<^verbatim>\<open>all_recommendations\<close>.
  \<^verbatim>\<open>self.experience_filters[level]\<close> raises \<^verbatim>\<open>KeyError\<close> on a missing key.
\<close>

definition all_recommendations ::
  "CarInfo \<Rightarrow> UserPreferences \<Rightarrow> py_error + TuningRecommendation list" where
  "all_recommendations car prefs =
     (let mb = resolve_max_budget prefs
      in case map_of experience_filters (experience_level prefs) of
           None \<Rightarrow> Inl KeyError
         | Some filters \<Rightarrow> goals_loop car prefs mb filters (primary_goals prefs))"

text \<open>
  \<^verbatim>\<open>generate_recommendations\<close>. The clock reading \<^verbatim>\<open>datetime.now().isoformat()\<close> is the
  argument \<open>now\<close>.
\<close>

definition generate_recommendations ::
  "string \<Rightarrow> CarInfo \<Rightarrow> UserPreferences \<Rightarrow> py_error + TuningReport" where
  "generate_recommendations now car prefs =
     (let mb = resolve_max_budget prefs
      in case all_recommendations car prefs of
           Inl e \<Rightarrow> Inl e
         | Inr all_recs \<Rightarrow>
             let unique_recommendations = deduplicate_recommendations all_recs;
                 sorted_recommendations =
                   py_sorted_reverse priority_score unique_recommendations;
                 filtered_recommendations = filter_by_budget sorted_recommendations mb
             in Inr \<lparr>
                  car_info = car,
                  user_preferences = prefs,
                  recommendations = filtered_recommendations,
                  total_estimated_cost = calculate_total_cost filtered_recommendations,
                  compatibility_matrix =
                    generate_compatibility_matrix filtered_recommendations,
                  safety_summary = generate_safety_summary filtered_recommendations,
                  legal_summary = generate_legal_summary filtered_recommendations,
                  disclaimer = generate_disclaimer car prefs,
                  generated_at = now\<rparr>)"


section \<open>Notions used to state the properties\<close>

text \<open>The deduplication key of \<^verbatim>\<open>_deduplicate_recommendations\<close>.\<close>

definition rec_key :: "TuningRecommendation \<Rightarrow> TuningCategory \<times> string" where
  "rec_key r = (category r, name r)"

text \<open>
  Deduplication as the specification words it: keep the first occurrence of each pair of
  category and name and drop every later element with that pair, in the order first seen.
\<close>

fun keep_first :: "TuningRecommendation list \<Rightarrow> TuningRecommendation list" where
  "keep_first [] = []"
| "keep_first (r # rs) = r # keep_first (filter (\<lambda>x. rec_key x \<noteq> rec_key r) rs)"

text \<open>
  The positions of a list at which a pair of category and name occurs for the first time.
\<close>

definition first_positions :: "TuningRecommendation list \<Rightarrow> nat set" where
  "first_positions rs =
     {i. i < length rs \<and> (\<forall>j < i. rec_key (rs ! j) \<noteq> rec_key (rs ! i))}"

text \<open>
  Lines 105 and 106 of \<^verbatim>\<open>generate_recommendations\<close>: the deduplicated working list,
  sorted by priority.
\<close>

definition sorted_candidates :: "TuningRecommendation list \<Rightarrow> TuningRecommendation list" where
  "sorted_candidates all_recs =
     py_sorted_reverse priority_score (deduplicate_recommendations all_recs)"

text \<open>
  The recommendation built from a catalogue entry, a category and a score: the record
  constructed in \<^verbatim>\<open>_generate_goal_recommendations\<close>.
\<close>

definition recommend :: "TuningOption \<Rightarrow> TuningCategory \<Rightarrow> rat \<Rightarrow> TuningRecommendation" where
  "recommend opt cat score = \<lparr>
     name = name opt,
     description = description opt,
     benefits = benefits opt,
     cost_range = cost_range opt,
     compatibility_notes = compatibility_notes opt,
     prerequisites = prerequisites opt,
     safety_warnings = safety_warnings opt,
     legal_considerations = legal_considerations opt,
     warranty_impact = warranty_impact opt,
     emissions_impact = emissions_impact opt,
     insurance_impact = insurance_impact opt,
     priority_score = score,
     safety_level = safety_level opt,
     installation_difficulty = installation_difficulty opt,
     professional_required = professional_required opt,
     category = cat\<rparr>"

text \<open>
  The order the specification gives to safety levels: low below medium below high.
\<close>

definition SafetyLevel_ordinal :: "SafetyLevel \<Rightarrow> nat" where
  "SafetyLevel_ordinal s = (case s of LOW \<Rightarrow> 0 | MEDIUM \<Rightarrow> 1 | HIGH \<Rightarrow> 2)"

text \<open>
  The budget selection as the specification words it: one pass from left to right that
  carries the number of candidates accepted so far and the amount spent, stops accepting
  at ten, and records with each accepted candidate the amount charged for it (its maximum
  cost, or its minimum cost when only that fits).
\<close>

fun greedy_select ::
  "nat \<Rightarrow> rat \<Rightarrow> rat \<Rightarrow> TuningRecommendation list \<Rightarrow> (TuningRecommendation \<times> rat) list" where
  "greedy_select accepted mb spent [] = []"
| "greedy_select accepted mb spent (c # cs) =
     (if accepted \<ge> 10 then []
      else if spent + cost_max (cost_range c) \<le> mb
        then (c, cost_max (cost_range c))
               # greedy_select (Suc accepted) mb (spent + cost_max (cost_range c)) cs
      else if spent + cost_min (cost_range c) \<le> mb
        then (c, cost_min (cost_range c))
               # greedy_select (Suc accepted) mb (spent + cost_min (cost_range c)) cs
      else greedy_select accepted mb spent cs)"

text \<open>The selection run on the sorted candidates of a request.\<close>

definition budget_selection ::
  "UserPreferences \<Rightarrow> TuningRecommendation list \<Rightarrow> (TuningRecommendation \<times> rat) list" where
  "budget_selection prefs all_recs =
     greedy_select 0 (resolve_max_budget prefs) 0 (sorted_candidates all_recs)"

text \<open>
  The constraint \<^verbatim>\<open>ge=0\<close> that the model class \<^verbatim>\<open>UserPreferences\<close> puts on
  \<^verbatim>\<open>max_budget\<close>.
\<close>

definition valid_preferences :: "UserPreferences \<Rightarrow> bool" where
  "valid_preferences prefs = (case max_budget prefs of None \<Rightarrow> True | Some m \<Rightarrow> 0 \<le> m)"

text \<open>A result is a report whose total of maximum costs stays within a limit.\<close>

definition total_max_within :: "rat \<Rightarrow> py_error + TuningReport \<Rightarrow> bool" where
  "total_max_within limit result =
     (case result of
        Inl e \<Rightarrow> False
      | Inr report \<Rightarrow> total_max (total_estimated_cost report) \<le> limit)"

text \<open>The three entries of the experience filter table.\<close>

definition beginner_filter :: ExperienceFilter where
  "beginner_filter = \<lparr>max_safety_level = MEDIUM, max_priority_score = 7.0,
     prefer_professional_installation = True, avoid_high_risk_mods = True\<rparr>"

definition intermediate_filter :: ExperienceFilter where
  "intermediate_filter = \<lparr>max_safety_level = HIGH, max_priority_score = 8.5,
     prefer_professional_installation = False, avoid_high_risk_mods = False\<rparr>"

definition advanced_filter :: ExperienceFilter where
  "advanced_filter = \<lparr>max_safety_level = HIGH, max_priority_score = 10.0,
     prefer_professional_installation = False, avoid_high_risk_mods = False\<rparr>"

text \<open>
  Concrete requests: the three scenarios of \<^verbatim>\<open>test_api.py\<close>, a request without goals and
  a request with a maximum budget of zero.
\<close>

definition bmw_3_series :: CarInfo where
  "bmw_3_series = \<lparr>car_make = ''BMW'', model = ''3 Series'', year = 2021,
     engine_type = PETROL, current_modifications = Some []\<rparr>"

definition tesla_model_3 :: CarInfo where
  "tesla_model_3 = \<lparr>car_make = ''Tesla'', model = ''Model 3'', year = 2022,
     engine_type = ELECTRIC, current_modifications = Some []\<rparr>"

definition toyota_camry :: CarInfo where
  "toyota_camry = \<lparr>car_make = ''Toyota'', model = ''Camry'', year = 2020,
     engine_type = PETROL, current_modifications = Some []\<rparr>"

definition scenario_a_prefs :: UserPreferences where
  "scenario_a_prefs = \<lparr>primary_goals = [PERFORMANCE, TRACK_USE], budget_range = PREMIUM,
     experience_level = ADVANCED, max_budget = Some 15000.0\<rparr>"

definition scenario_b_prefs :: UserPreferences where
  "scenario_b_prefs = \<lparr>primary_goals = [PERFORMANCE, DAILY_COMFORT], budget_range = MODERATE,
     experience_level = INTERMEDIATE, max_budget = Some 6000.0\<rparr>"

definition scenario_c_prefs :: UserPreferences where
  "scenario_c_prefs = \<lparr>primary_goals = [DAILY_COMFORT, FUEL_ECONOMY], budget_range = BUDGET,
     experience_level = BEGINNER, max_budget = Some 2000.0\<rparr>"

definition empty_goals_prefs :: UserPreferences where
  "empty_goals_prefs = \<lparr>primary_goals = [], budget_range = MODERATE,
     experience_level = INTERMEDIATE, max_budget = None\<rparr>"

definition zero_budget_prefs :: UserPreferences where
  "zero_budget_prefs = \<lparr>primary_goals = [PERFORMANCE], budget_range = BUDGET,
     experience_level = BEGINNER, max_budget = Some 0.0\<rparr>"

definition timestamp :: string where
  "timestamp = ''2024-01-01T00:00:00''"


section \<open>The engine returns a report\<close>

text \<open>
  Both tables of the engine have an entry for every member of their key type, so neither
  dictionary lookup raises.
\<close>

lemma goal_priorities_total: "\<exists>cats. map_of goal_priorities goal = Some cats"
  by (cases goal) (simp_all add: goal_priorities_def)

lemma experience_filters_total: "\<exists>filters. map_of experience_filters level = Some filters"
  by (cases level) (simp_all add: experience_filters_def)

lemma generate_goal_recommendations_returns:
  "\<exists>recs. generate_goal_recommendations car prefs goal mb filters = Inr recs"
  using goal_priorities_total [of goal]
  by (auto simp: generate_goal_recommendations_def)

lemma goals_loop_returns: "\<exists>recs. goals_loop car prefs mb filters goals = Inr recs"
proof (induction goals)
  case Nil
  show ?case by simp
next
  case (Cons goal goals)
  obtain recs where "generate_goal_recommendations car prefs goal mb filters = Inr recs"
    using generate_goal_recommendations_returns by blast
  with Cons show ?case by auto
qed

lemma all_recommendations_returns: "\<exists>recs. all_recommendations car prefs = Inr recs"
  using experience_filters_total [of "experience_level prefs"] goals_loop_returns
  by (auto simp: all_recommendations_def Let_def)

lemma generate_recommendations_returns:
  "\<exists>report. generate_recommendations now car prefs = Inr report"
  using all_recommendations_returns [of car prefs]
  by (auto simp: generate_recommendations_def Let_def)

lemma generate_recommendations_Inr:
  assumes "generate_recommendations now car prefs = Inr report"
  obtains all_recs where
    "all_recommendations car prefs = Inr all_recs"
    "recommendations report =
       filter_by_budget
         (py_sorted_reverse priority_score (deduplicate_recommendations all_recs))
         (resolve_max_budget prefs)"
    "total_estimated_cost report = calculate_total_cost (recommendations report)"
  using assms
  by (auto simp: generate_recommendations_def Let_def split: sum.splits)


section \<open>Where an emitted recommendation comes from\<close>

lemma set_options_loop:
  "set (options_loop car prefs goal mb filters cat opts) =
     {r. \<exists>opt \<in> set opts. consider_option car prefs goal mb filters cat opt = Some r}"
  by (induction opts) (auto split: option.splits)

lemma set_categories_loop:
  "set (categories_loop car prefs goal mb filters cats) =
     {r. \<exists>cat \<in> set cats. \<exists>opt \<in> set (get_tuning_options_for_category cat).
            consider_option car prefs goal mb filters cat opt = Some r}"
  by (induction cats) (auto simp: set_options_loop)

lemma goals_loop_origin:
  "goals_loop car prefs mb filters goals = Inr recs \<Longrightarrow> r \<in> set recs \<Longrightarrow>
     \<exists>goal \<in> set goals. \<exists>cat. \<exists>opt \<in> set (get_tuning_options_for_category cat).
        consider_option car prefs goal mb filters cat opt = Some r"
proof (induction goals arbitrary: recs)
  case Nil
  then show ?case by simp
next
  case (Cons goal goals)
  from Cons.prems(1) obtain here rest where
    here: "generate_goal_recommendations car prefs goal mb filters = Inr here" and
    rest: "goals_loop car prefs mb filters goals = Inr rest" and
    recs: "recs = here @ rest"
    by (auto split: sum.splits)
  from Cons.prems(2) recs consider "r \<in> set here" | "r \<in> set rest" by auto
  then show ?case
  proof cases
    case 1
    with here show ?thesis
      by (auto simp: generate_goal_recommendations_def set_categories_loop split: option.splits)
  next
    case 2
    with Cons.IH [OF rest] show ?thesis by auto
  qed
qed

lemma all_recommendations_origin:
  assumes "all_recommendations car prefs = Inr recs" and "r \<in> set recs"
  shows "\<exists>filters. map_of experience_filters (experience_level prefs) = Some filters \<and>
     (\<exists>goal \<in> set (primary_goals prefs). \<exists>cat.
        \<exists>opt \<in> set (get_tuning_options_for_category cat).
          consider_option car prefs goal (resolve_max_budget prefs) filters cat opt = Some r)"
  using assms goals_loop_origin
  by (fastforce simp: all_recommendations_def Let_def split: option.splits)

lemma set_dedup_loop_subset: "set (dedup_loop seen rs) \<subseteq> set rs"
  by (induction rs arbitrary: seen) (auto simp: Let_def)

lemma set_budget_loop_subset: "set (budget_loop mb spent rs) \<subseteq> set rs"
  by (induction rs arbitrary: spent) auto

lemma set_py_sorted_reverse: "set (py_sorted_reverse f xs) = set xs"
  by (simp add: py_sorted_reverse_def)

lemma set_filter_by_budget_subset: "set (filter_by_budget rs mb) \<subseteq> set rs"
  using set_budget_loop_subset set_take_subset unfolding filter_by_budget_def by fast

lemma emitted_in_working_list:
  assumes "generate_recommendations now car prefs = Inr report"
    and "all_recommendations car prefs = Inr all_recs"
  shows "set (recommendations report) \<subseteq> set all_recs"
proof -
  from assms obtain
    "recommendations report =
       filter_by_budget
         (py_sorted_reverse priority_score (deduplicate_recommendations all_recs))
         (resolve_max_budget prefs)"
    by (auto elim: generate_recommendations_Inr)
  then show ?thesis
    using set_filter_by_budget_subset set_dedup_loop_subset
    by (fastforce simp: set_py_sorted_reverse deduplicate_recommendations_def)
qed

lemma emitted_origin:
  assumes "generate_recommendations now car prefs = Inr report"
    and "r \<in> set (recommendations report)"
  shows "\<exists>filters. map_of experience_filters (experience_level prefs) = Some filters \<and>
     (\<exists>goal \<in> set (primary_goals prefs). \<exists>cat.
        \<exists>opt \<in> set (get_tuning_options_for_category cat).
          consider_option car prefs goal (resolve_max_budget prefs) filters cat opt = Some r)"
proof -
  obtain all_recs where a: "all_recommendations car prefs = Inr all_recs"
    using all_recommendations_returns by blast
  with assms emitted_in_working_list have "r \<in> set all_recs" by blast
  with a show ?thesis by (rule all_recommendations_origin)
qed

lemma consider_option_Some:
  assumes "consider_option car prefs goal mb filters cat opt = Some r"
  shows "passes_experience_filters opt filters"
    and "cost_max (cost_range opt) \<le> mb"
    and "is_compatible_with_engine opt (engine_type car)"
    and "name r = name opt"
    and "category r = cat"
    and "safety_level r = safety_level opt"
    and "cost_range r = cost_range opt"
  using assms
  by (auto simp: consider_option_def Let_def split: if_splits)

lemma recommend_sel [simp]:
  "name (recommend opt cat score) = name opt"
  "cost_range (recommend opt cat score) = cost_range opt"
  "priority_score (recommend opt cat score) = score"
  "safety_level (recommend opt cat score) = safety_level opt"
  "category (recommend opt cat score) = cat"
  by (simp_all add: recommend_def)

lemma consider_option_recommend:
  "consider_option car prefs goal mb filters cat opt =
     (if \<not> passes_experience_filters opt filters then None
      else if cost_max (cost_range opt) > mb then None
      else if \<not> is_compatible_with_engine opt (engine_type car) then None
      else Some (recommend opt cat
             (adjust_priority_score (recommend opt cat (priority_score opt)) goal prefs)))"
  by (simp add: consider_option_def recommend_def Let_def)


section \<open>Resolving the spending cap\<close>

lemma resolve_max_budget_cases:
  "resolve_max_budget prefs =
     (case max_budget prefs of
        None \<Rightarrow> cost_max (get_budget_range (budget_range prefs))
      | Some m \<Rightarrow> if m = 0 then cost_max (get_budget_range (budget_range prefs)) else m)"
  by (simp add: resolve_max_budget_def py_or_def Let_def)

lemma get_budget_range_nonneg: "0 \<le> cost_max (get_budget_range b)"
  by (cases b) (simp_all add: get_budget_range_def budget_ranges_def)

lemma resolve_max_budget_nonneg: "valid_preferences prefs \<Longrightarrow> 0 \<le> resolve_max_budget prefs"
  using get_budget_range_nonneg [of "budget_range prefs"]
  by (auto simp: valid_preferences_def resolve_max_budget_def py_or_def Let_def
      split: option.splits)


section \<open>The experience filter and the engine rule\<close>

lemma exceeds_max_safety_level_table:
  "exceeds_max_safety_level opt filters \<longleftrightarrow>
     (case max_safety_level filters of
        HIGH \<Rightarrow> safety_level opt \<noteq> HIGH
      | LOW \<Rightarrow> safety_level opt = MEDIUM
      | MEDIUM \<Rightarrow> False)"
  by (cases "max_safety_level filters"; cases "safety_level opt")
    (simp_all add: exceeds_max_safety_level_def)

lemma ceiling_high_only:
  "max_safety_level filters = HIGH \<Longrightarrow> \<not> exceeds_max_safety_level opt filters \<Longrightarrow>
     safety_level opt = HIGH"
  by (cases "safety_level opt") (simp_all add: exceeds_max_safety_level_def)

lemma filters_not_beginner:
  "level \<noteq> BEGINNER \<Longrightarrow> map_of experience_filters level = Some filters \<Longrightarrow>
     max_safety_level filters = HIGH"
  by (cases level) (auto simp: experience_filters_def)

lemma is_compatible_not_electric:
  "engine \<noteq> ELECTRIC \<Longrightarrow> is_compatible_with_engine opt engine"
  by (simp add: is_compatible_with_engine_def)


section \<open>Score adjustment\<close>

lemma adjust_priority_score_formula:
  "goal \<in> set (primary_goals prefs) \<Longrightarrow>
   adjust_priority_score r goal prefs =
     min 10.0
       (priority_score r * 1.2
          * (if experience_level prefs = BEGINNER \<and> safety_level r = HIGH then 0.7 else 1)
          * (if budget_range prefs = BUDGET \<and> cost_max (cost_range r) < 1000 then 1.1 else 1))"
  by (simp add: adjust_priority_score_def Let_def min.commute)

lemma consider_option_score:
  assumes "consider_option car prefs goal mb filters cat opt = Some r"
    and "goal \<in> set (primary_goals prefs)"
  shows "priority_score r =
     min 10.0
       (priority_score opt * 1.2
          * (if experience_level prefs = BEGINNER \<and> safety_level opt = HIGH then 0.7 else 1)
          * (if budget_range prefs = BUDGET \<and> cost_max (cost_range opt) < 1000 then 1.1 else 1))"
  using assms
  by (auto simp: consider_option_def Let_def adjust_priority_score_formula split: if_splits)


section \<open>Deduplication\<close>

lemma dedup_loop_key_unseen: "r \<in> set (dedup_loop seen rs) \<Longrightarrow> rec_key r \<notin> seen"
  by (induction rs arbitrary: seen) (auto simp: Let_def rec_key_def split: if_splits)

lemma distinct_dedup_loop: "distinct (map rec_key (dedup_loop seen rs))"
proof (induction rs arbitrary: seen)
  case Nil
  show ?case by simp
next
  case (Cons r rs)
  have "rec_key r \<notin> rec_key ` set (dedup_loop (insert (rec_key r) seen) rs)"
  proof
    assume "rec_key r \<in> rec_key ` set (dedup_loop (insert (rec_key r) seen) rs)"
    then obtain x where "x \<in> set (dedup_loop (insert (rec_key r) seen) rs)"
      and "rec_key x = rec_key r" by auto
    with dedup_loop_key_unseen [of x] show False by auto
  qed
  with Cons show ?case by (simp add: Let_def rec_key_def)
qed

lemma keys_dedup_loop: "rec_key ` set (dedup_loop seen rs) = rec_key ` set rs - seen"
  by (induction rs arbitrary: seen) (auto simp: Let_def rec_key_def)

lemma subseq_dedup_loop: "subseq (dedup_loop seen rs) rs"
  by (induction rs arbitrary: seen) (auto simp: Let_def)

lemma dedup_loop_first:
  "r \<in> set (dedup_loop seen rs) \<Longrightarrow> find (\<lambda>x. rec_key x = rec_key r) rs = Some r"
proof (induction rs arbitrary: seen)
  case Nil
  then show ?case by simp
next
  case (Cons h rs)
  show ?case
  proof (cases "r = h")
    case True
    then show ?thesis by simp
  next
    case False
    show ?thesis
    proof (cases "rec_key h \<in> seen")
      case True
      with Cons.prems have in_rest: "r \<in> set (dedup_loop seen rs)"
        by (simp add: Let_def rec_key_def)
      then have "rec_key r \<notin> seen" by (rule dedup_loop_key_unseen)
      with True have "rec_key h \<noteq> rec_key r" by auto
      with Cons.IH [OF in_rest] show ?thesis by simp
    next
      case unseen: False
      with Cons.prems \<open>r \<noteq> h\<close>
      have in_rest: "r \<in> set (dedup_loop (insert (rec_key h) seen) rs)"
        by (simp add: Let_def rec_key_def)
      then have "rec_key r \<notin> insert (rec_key h) seen" by (rule dedup_loop_key_unseen)
      then have "rec_key h \<noteq> rec_key r" by auto
      with Cons.IH [OF in_rest] show ?thesis by simp
    qed
  qed
qed

lemma filter_unseen_insert:
  "filter (\<lambda>x. rec_key x \<noteq> k) (filter (\<lambda>x. rec_key x \<notin> seen) rs)
     = filter (\<lambda>x. rec_key x \<notin> insert k seen) rs"
  by (induction rs) auto

lemma dedup_loop_keep_first:
  "dedup_loop seen rs = keep_first (filter (\<lambda>x. rec_key x \<notin> seen) rs)"
proof (induction rs arbitrary: seen)
  case Nil
  show ?case by simp
next
  case (Cons r rs)
  show ?case
  proof (cases "rec_key r \<in> seen")
    case True
    with Cons show ?thesis by (simp add: Let_def rec_key_def)
  next
    case False
    have "dedup_loop seen (r # rs) = r # dedup_loop (insert (rec_key r) seen) rs"
      using False by (simp add: Let_def rec_key_def)
    also have "\<dots> = r # keep_first (filter (\<lambda>x. rec_key x \<notin> insert (rec_key r) seen) rs)"
      by (simp only: Cons.IH)
    also have "\<dots> = keep_first (filter (\<lambda>x. rec_key x \<notin> seen) (r # rs))"
      using False by (simp del: filter_filter add: filter_unseen_insert)
    finally show ?thesis .
  qed
qed

lemma dedup_loop_nths:
  "dedup_loop seen rs =
     nths rs {i. i < length rs \<and> rec_key (rs ! i) \<notin> seen
                \<and> (\<forall>j < i. rec_key (rs ! j) \<noteq> rec_key (rs ! i))}"
proof (induction rs arbitrary: seen)
  case Nil
  show ?case by simp
next
  case (Cons r rs)
  let ?A = "\<lambda>seen rs. {i. i < length rs \<and> rec_key (rs ! i) \<notin> seen
                \<and> (\<forall>j < i. rec_key (rs ! j) \<noteq> rec_key (rs ! i))}"
  have shift: "{j. Suc j \<in> ?A seen (r # rs)}
      = {j. j < length rs \<and> rec_key (rs ! j) \<notin> seen \<and> rec_key r \<noteq> rec_key (rs ! j)
            \<and> (\<forall>k < j. rec_key (rs ! k) \<noteq> rec_key (rs ! j))}"
    by (auto simp: less_Suc_eq_0_disj)
  have zero: "0 \<in> ?A seen (r # rs) \<longleftrightarrow> rec_key r \<notin> seen" by simp
  show ?case
  proof (cases "rec_key r \<in> seen")
    case True
    then have "{j. Suc j \<in> ?A seen (r # rs)} = ?A seen rs"
      unfolding shift by auto
    with True zero Cons.IH [of seen] show ?thesis
      by (simp add: nths_Cons Let_def rec_key_def)
  next
    case False
    then have "{j. Suc j \<in> ?A seen (r # rs)} = ?A (insert (rec_key r) seen) rs"
      unfolding shift by auto
    with False zero Cons.IH [of "insert (rec_key r) seen"] show ?thesis
      by (simp add: nths_Cons Let_def rec_key_def)
  qed
qed

lemma deduplicate_keep_first: "deduplicate_recommendations rs = keep_first rs"
  by (simp add: deduplicate_recommendations_def dedup_loop_keep_first)

lemma deduplicate_nths: "deduplicate_recommendations rs = nths rs (first_positions rs)"
  by (simp add: deduplicate_recommendations_def dedup_loop_nths first_positions_def)


section \<open>Sorting\<close>

lemma py_sorted_reverse_descending:
  "sorted_wrt (\<lambda>a b. f a \<ge> f b) (py_sorted_reverse f xs)"
proof -
  have "sorted (map f (sort_key f (rev xs)))" by simp
  then have "sorted_wrt (\<lambda>a b. f a \<le> f b) (sort_key f (rev xs))"
    by (simp only: sorted_map)
  then show ?thesis by (simp add: py_sorted_reverse_def sorted_wrt_rev)
qed

lemma py_sorted_reverse_stable:
  "filter (\<lambda>x. f x = k) (py_sorted_reverse f xs) = filter (\<lambda>x. f x = k) xs"
proof -
  have "filter (\<lambda>x. f x = k) (py_sorted_reverse f xs)
          = rev (filter (\<lambda>x. f x = k) (sort_key f (rev xs)))"
    by (simp add: py_sorted_reverse_def rev_filter)
  also have "\<dots> = rev (filter (\<lambda>x. f x = k) (rev xs))"
    by (simp only: sort_key_stable)
  also have "\<dots> = filter (\<lambda>x. f x = k) xs"
    by (simp add: rev_filter)
  finally show ?thesis .
qed

lemma distinct_map_py_sorted_reverse:
  "distinct (map g (py_sorted_reverse f xs)) = distinct (map g xs)"
  by (simp add: py_sorted_reverse_def distinct_map)

lemma subseq_sorted_wrt: "subseq xs ys \<Longrightarrow> sorted_wrt P ys \<Longrightarrow> sorted_wrt P xs"
proof (induction rule: list_emb.induct)
  case (list_emb_Nil ys)
  show ?case by simp
next
  case (list_emb_Cons xs ys y)
  then show ?case by simp
next
  case (list_emb_Cons2 x y xs ys)
  then have "set xs \<subseteq> set ys" by (auto dest: list_emb_set)
  with list_emb_Cons2 show ?case by auto
qed

lemma subseq_distinct: "subseq xs ys \<Longrightarrow> distinct ys \<Longrightarrow> distinct xs"
proof (induction rule: list_emb.induct)
  case (list_emb_Nil ys)
  show ?case by simp
next
  case (list_emb_Cons xs ys y)
  then show ?case by simp
next
  case (list_emb_Cons2 x y xs ys)
  then have "set xs \<subseteq> set ys" by (auto dest: list_emb_set)
  with list_emb_Cons2 show ?case by auto
qed


section \<open>Budget selection\<close>

lemma subseq_budget_loop: "subseq (budget_loop mb spent rs) rs"
  by (induction rs arbitrary: spent) auto

lemma subseq_take: "subseq (take n xs) xs"
  by (metis append_take_drop_id list_emb_append_mono list_emb_Nil subseq_order.order_refl append_Nil2)

lemma subseq_filter_by_budget: "subseq (filter_by_budget rs mb) rs"
  unfolding filter_by_budget_def
  using subseq_take subseq_budget_loop subseq_order.trans by blast

lemma greedy_select_items:
  "map fst (greedy_select n mb spent cs) = take (10 - n) (budget_loop mb spent cs)"
proof (induction cs arbitrary: n spent)
  case Nil
  show ?case by simp
next
  case (Cons c cs)
  show ?case
  proof (cases "10 \<le> n")
    case True
    then show ?thesis by simp
  next
    case False
    then have "10 - n = Suc (10 - Suc n)" by simp
    with False Cons show ?thesis by simp
  qed
qed

lemma greedy_select_prefix_sums:
  "0 < k \<Longrightarrow> k \<le> length (greedy_select n mb spent cs) \<Longrightarrow>
     spent + sum_list (take k (map snd (greedy_select n mb spent cs))) \<le> mb"
proof (induction cs arbitrary: n spent k)
  case Nil
  then show ?case by simp
next
  case (Cons c cs)
  obtain k' where k: "k = Suc k'" using Cons.prems(1) by (cases k) auto
  show ?case
  proof (cases "10 \<le> n")
    case True
    with Cons.prems show ?thesis by simp
  next
    case n: False
    show ?thesis
    proof (cases "spent + cost_max (cost_range c) \<le> mb")
      case True
      show ?thesis
      proof (cases "k' = 0")
        case True
        with \<open>spent + cost_max (cost_range c) \<le> mb\<close> n k show ?thesis by simp
      next
        case False
        with Cons.prems n True k
        have "spent + cost_max (cost_range c)
                + sum_list (take k' (map snd (greedy_select (Suc n) mb
                    (spent + cost_max (cost_range c)) cs))) \<le> mb"
          by (intro Cons.IH) auto
        with n True k show ?thesis by (simp add: add.assoc)
      qed
    next
      case nomax: False
      show ?thesis
      proof (cases "spent + cost_min (cost_range c) \<le> mb")
        case True
        show ?thesis
        proof (cases "k' = 0")
          case True
          with \<open>spent + cost_min (cost_range c) \<le> mb\<close> n nomax k show ?thesis by simp
        next
          case False
          with Cons.prems n True nomax k
          have "spent + cost_min (cost_range c)
                  + sum_list (take k' (map snd (greedy_select (Suc n) mb
                      (spent + cost_min (cost_range c)) cs))) \<le> mb"
            by (intro Cons.IH) auto
          with n True nomax k show ?thesis by (simp add: add.assoc)
        qed
      next
        case False
        with Cons.prems n nomax have "k \<le> length (greedy_select n mb spent cs)" by simp
        with Cons.IH [OF Cons.prems(1) this] n nomax False show ?thesis by simp
      qed
    qed
  qed
qed

lemma greedy_select_amounts:
  "(c, a) \<in> set (greedy_select n mb spent cs) \<Longrightarrow>
     a = cost_max (cost_range c) \<or> a = cost_min (cost_range c)"
  by (induction cs arbitrary: n spent) (auto split: if_splits)

lemma emitted_eq:
  assumes "generate_recommendations now car prefs = Inr report"
    and "all_recommendations car prefs = Inr all_recs"
  shows "recommendations report =
     filter_by_budget (sorted_candidates all_recs) (resolve_max_budget prefs)"
  using assms unfolding sorted_candidates_def
  by (auto elim: generate_recommendations_Inr)


section \<open>The catalogue, field by field\<close>

lemmas kb_defs = stage_1_ecu_remap_def stage_2_ecu_remap_def performance_exhaust_system_def
  cat_back_exhaust_system_def cold_air_intake_system_def performance_air_filter_def
  lowering_springs_def coilover_suspension_def performance_tires_def lightweight_wheels_def
  performance_brake_pads_def big_brake_kit_def body_kit_def

lemma kb_name:
  "name stage_1_ecu_remap = ''Stage 1 ECU Remap''"
  "name stage_2_ecu_remap = ''Stage 2 ECU Remap''"
  "name performance_exhaust_system = ''Performance Exhaust System''"
  "name cat_back_exhaust_system = ''Cat-Back Exhaust System''"
  "name cold_air_intake_system = ''Cold Air Intake System''"
  "name performance_air_filter = ''Performance Air Filter''"
  "name lowering_springs = ''Lowering Springs''"
  "name coilover_suspension = ''Coilover Suspension''"
  "name performance_tires = ''Performance Tires''"
  "name lightweight_wheels = ''Lightweight Wheels''"
  "name performance_brake_pads = ''Performance Brake Pads''"
  "name big_brake_kit = ''Big Brake Kit''"
  "name body_kit = ''Body Kit''"
  by (simp_all add: kb_defs)

lemma kb_cost_range:
  "cost_range stage_1_ecu_remap = \<lparr>cost_min = 300, cost_max = 800\<rparr>"
  "cost_range stage_2_ecu_remap = \<lparr>cost_min = 500, cost_max = 1200\<rparr>"
  "cost_range performance_exhaust_system = \<lparr>cost_min = 400, cost_max = 2000\<rparr>"
  "cost_range cat_back_exhaust_system = \<lparr>cost_min = 300, cost_max = 1500\<rparr>"
  "cost_range cold_air_intake_system = \<lparr>cost_min = 150, cost_max = 500\<rparr>"
  "cost_range performance_air_filter = \<lparr>cost_min = 50, cost_max = 200\<rparr>"
  "cost_range lowering_springs = \<lparr>cost_min = 200, cost_max = 800\<rparr>"
  "cost_range coilover_suspension = \<lparr>cost_min = 800, cost_max = 3000\<rparr>"
  "cost_range performance_tires = \<lparr>cost_min = 400, cost_max = 1200\<rparr>"
  "cost_range lightweight_wheels = \<lparr>cost_min = 600, cost_max = 2000\<rparr>"
  "cost_range performance_brake_pads = \<lparr>cost_min = 100, cost_max = 400\<rparr>"
  "cost_range big_brake_kit = \<lparr>cost_min = 1500, cost_max = 5000\<rparr>"
  "cost_range body_kit = \<lparr>cost_min = 500, cost_max = 3000\<rparr>"
  by (simp_all add: kb_defs)

lemma kb_priority_score:
  "priority_score stage_1_ecu_remap = 9.0"
  "priority_score stage_2_ecu_remap = 8.5"
  "priority_score performance_exhaust_system = 7.5"
  "priority_score cat_back_exhaust_system = 7.0"
  "priority_score cold_air_intake_system = 6.5"
  "priority_score performance_air_filter = 5.0"
  "priority_score lowering_springs = 6.0"
  "priority_score coilover_suspension = 7.5"
  "priority_score performance_tires = 8.0"
  "priority_score lightweight_wheels = 6.5"
  "priority_score performance_brake_pads = 7.0"
  "priority_score big_brake_kit = 8.5"
  "priority_score body_kit = 3.0"
  by (simp_all add: kb_defs)

lemma kb_safety_level:
  "safety_level stage_1_ecu_remap = MEDIUM"
  "safety_level stage_2_ecu_remap = HIGH"
  "safety_level performance_exhaust_system = LOW"
  "safety_level cat_back_exhaust_system = LOW"
  "safety_level cold_air_intake_system = LOW"
  "safety_level performance_air_filter = LOW"
  "safety_level lowering_springs = MEDIUM"
  "safety_level coilover_suspension = MEDIUM"
  "safety_level performance_tires = LOW"
  "safety_level lightweight_wheels = LOW"
  "safety_level performance_brake_pads = MEDIUM"
  "safety_level big_brake_kit = HIGH"
  "safety_level body_kit = LOW"
  by (simp_all add: kb_defs)

lemma kb_ecu_in_name:
  "sublist ''ECU'' (name stage_1_ecu_remap)"
  "sublist ''ECU'' (name stage_2_ecu_remap)"
  "\<not> sublist ''ECU'' (name performance_exhaust_system)"
  "\<not> sublist ''ECU'' (name cat_back_exhaust_system)"
  "\<not> sublist ''ECU'' (name cold_air_intake_system)"
  "\<not> sublist ''ECU'' (name performance_air_filter)"
  "\<not> sublist ''ECU'' (name lowering_springs)"
  "\<not> sublist ''ECU'' (name coilover_suspension)"
  "\<not> sublist ''ECU'' (name performance_tires)"
  "\<not> sublist ''ECU'' (name lightweight_wheels)"
  "\<not> sublist ''ECU'' (name performance_brake_pads)"
  "\<not> sublist ''ECU'' (name big_brake_kit)"
  "\<not> sublist ''ECU'' (name body_kit)"
  unfolding kb_name by (simp_all add: sublist_Cons_right)

lemma no_ecu_in_name:
  "is_compatible_with_engine performance_exhaust_system engine"
  "is_compatible_with_engine cat_back_exhaust_system engine"
  "is_compatible_with_engine cold_air_intake_system engine"
  "is_compatible_with_engine performance_air_filter engine"
  "is_compatible_with_engine lowering_springs engine"
  "is_compatible_with_engine coilover_suspension engine"
  "is_compatible_with_engine performance_tires engine"
  "is_compatible_with_engine lightweight_wheels engine"
  "is_compatible_with_engine performance_brake_pads engine"
  "is_compatible_with_engine big_brake_kit engine"
  "is_compatible_with_engine body_kit engine"
  by (simp_all add: is_compatible_with_engine_def kb_ecu_in_name)

lemma beginner_filter_lookup: "map_of experience_filters BEGINNER = Some beginner_filter"
  by (simp add: experience_filters_def beginner_filter_def)

lemma intermediate_filter_lookup:
  "map_of experience_filters INTERMEDIATE = Some intermediate_filter"
  by (simp add: experience_filters_def intermediate_filter_def)

lemma advanced_filter_lookup: "map_of experience_filters ADVANCED = Some advanced_filter"
  by (simp add: experience_filters_def advanced_filter_def)

lemma beginner_passes:
  "\<not> passes_experience_filters stage_1_ecu_remap beginner_filter"
  "\<not> passes_experience_filters stage_2_ecu_remap beginner_filter"
  "\<not> passes_experience_filters performance_exhaust_system beginner_filter"
  "passes_experience_filters cat_back_exhaust_system beginner_filter"
  "passes_experience_filters cold_air_intake_system beginner_filter"
  "passes_experience_filters performance_air_filter beginner_filter"
  "passes_experience_filters lowering_springs beginner_filter"
  "\<not> passes_experience_filters coilover_suspension beginner_filter"
  "\<not> passes_experience_filters performance_tires beginner_filter"
  "passes_experience_filters lightweight_wheels beginner_filter"
  "passes_experience_filters performance_brake_pads beginner_filter"
  "\<not> passes_experience_filters big_brake_kit beginner_filter"
  "passes_experience_filters body_kit beginner_filter"
  by (simp_all add: passes_experience_filters_def exceeds_max_safety_level_def
      beginner_filter_def kb_safety_level kb_priority_score)

lemma intermediate_passes:
  "\<not> passes_experience_filters stage_1_ecu_remap intermediate_filter"
  "passes_experience_filters stage_2_ecu_remap intermediate_filter"
  "\<not> passes_experience_filters performance_exhaust_system intermediate_filter"
  "\<not> passes_experience_filters cat_back_exhaust_system intermediate_filter"
  "\<not> passes_experience_filters cold_air_intake_system intermediate_filter"
  "\<not> passes_experience_filters performance_air_filter intermediate_filter"
  "\<not> passes_experience_filters lowering_springs intermediate_filter"
  "\<not> passes_experience_filters coilover_suspension intermediate_filter"
  "\<not> passes_experience_filters performance_tires intermediate_filter"
  "\<not> passes_experience_filters lightweight_wheels intermediate_filter"
  "\<not> passes_experience_filters performance_brake_pads intermediate_filter"
  "passes_experience_filters big_brake_kit intermediate_filter"
  "\<not> passes_experience_filters body_kit intermediate_filter"
  by (simp_all add: passes_experience_filters_def exceeds_max_safety_level_def
      intermediate_filter_def kb_safety_level kb_priority_score)

lemma advanced_passes:
  "\<not> passes_experience_filters stage_1_ecu_remap advanced_filter"
  "passes_experience_filters stage_2_ecu_remap advanced_filter"
  "\<not> passes_experience_filters performance_exhaust_system advanced_filter"
  "\<not> passes_experience_filters cat_back_exhaust_system advanced_filter"
  "\<not> passes_experience_filters cold_air_intake_system advanced_filter"
  "\<not> passes_experience_filters performance_air_filter advanced_filter"
  "\<not> passes_experience_filters lowering_springs advanced_filter"
  "\<not> passes_experience_filters coilover_suspension advanced_filter"
  "\<not> passes_experience_filters performance_tires advanced_filter"
  "\<not> passes_experience_filters lightweight_wheels advanced_filter"
  "\<not> passes_experience_filters performance_brake_pads advanced_filter"
  "passes_experience_filters big_brake_kit advanced_filter"
  "\<not> passes_experience_filters body_kit advanced_filter"
  by (simp_all add: passes_experience_filters_def exceeds_max_safety_level_def
      advanced_filter_def kb_safety_level kb_priority_score)


section \<open>Scenario A: an advanced user, performance and track use, at most 15000\<close>

lemma scenario_a_fields:
  "primary_goals scenario_a_prefs = [PERFORMANCE, TRACK_USE]"
  "budget_range scenario_a_prefs = PREMIUM"
  "experience_level scenario_a_prefs = ADVANCED"
  "max_budget scenario_a_prefs = Some 15000"
  by (simp_all add: scenario_a_prefs_def)

lemma scenario_a_max_budget: "resolve_max_budget scenario_a_prefs = 15000"
  by (simp add: resolve_max_budget_def py_or_def scenario_a_fields)

lemma bmw_engine: "engine_type bmw_3_series = PETROL"
  by (simp add: bmw_3_series_def)

lemma scenario_a_working_list:
  "all_recommendations bmw_3_series scenario_a_prefs = Inr [
     recommend stage_2_ecu_remap ECU_REMAPPING 10.0,
     recommend big_brake_kit BRAKE_SYSTEM 10.0,
     recommend stage_2_ecu_remap ECU_REMAPPING 10.0,
     recommend big_brake_kit BRAKE_SYSTEM 10.0]"
  by (simp add: all_recommendations_def scenario_a_max_budget scenario_a_fields
      advanced_filter_lookup generate_goal_recommendations_def goal_priorities_def
      get_tuning_options_for_category_def tuning_options_def consider_option_recommend
      advanced_passes kb_cost_range kb_ecu_in_name is_compatible_with_engine_def
      bmw_engine adjust_priority_score_def kb_priority_score kb_safety_level)

lemma scenario_a_deduplicated:
  "deduplicate_recommendations [
     recommend stage_2_ecu_remap ECU_REMAPPING 10.0,
     recommend big_brake_kit BRAKE_SYSTEM 10.0,
     recommend stage_2_ecu_remap ECU_REMAPPING 10.0,
     recommend big_brake_kit BRAKE_SYSTEM 10.0]
   = [recommend stage_2_ecu_remap ECU_REMAPPING 10.0,
      recommend big_brake_kit BRAKE_SYSTEM 10.0]"
  by (simp add: deduplicate_recommendations_def kb_name)

lemma scenario_a_sorted:
  "py_sorted_reverse priority_score [
     recommend stage_2_ecu_remap ECU_REMAPPING 10.0,
     recommend big_brake_kit BRAKE_SYSTEM 10.0]
   = [recommend stage_2_ecu_remap ECU_REMAPPING 10.0,
      recommend big_brake_kit BRAKE_SYSTEM 10.0]"
  by (simp add: py_sorted_reverse_def)

lemma scenario_a_filtered:
  "filter_by_budget [
     recommend stage_2_ecu_remap ECU_REMAPPING 10.0,
     recommend big_brake_kit BRAKE_SYSTEM 10.0] 15000
   = [recommend stage_2_ecu_remap ECU_REMAPPING 10.0,
      recommend big_brake_kit BRAKE_SYSTEM 10.0]"
  by (simp add: filter_by_budget_def kb_cost_range)

lemma scenario_a_recommendations:
  assumes "generate_recommendations now bmw_3_series scenario_a_prefs = Inr report"
  shows "recommendations report =
     [recommend stage_2_ecu_remap ECU_REMAPPING 10.0,
      recommend big_brake_kit BRAKE_SYSTEM 10.0]"
proof -
  from assms have "recommendations report =
      filter_by_budget
        (sorted_candidates [
           recommend stage_2_ecu_remap ECU_REMAPPING 10.0,
           recommend big_brake_kit BRAKE_SYSTEM 10.0,
           recommend stage_2_ecu_remap ECU_REMAPPING 10.0,
           recommend big_brake_kit BRAKE_SYSTEM 10.0])
        (resolve_max_budget scenario_a_prefs)"
    using scenario_a_working_list by (rule emitted_eq)
  then show ?thesis
    by (simp only: sorted_candidates_def scenario_a_deduplicated scenario_a_sorted
        scenario_a_max_budget scenario_a_filtered)
qed


section \<open>Scenario B: an intermediate user with an electric car, at most 6000\<close>

lemma scenario_b_fields:
  "primary_goals scenario_b_prefs = [PERFORMANCE, DAILY_COMFORT]"
  "budget_range scenario_b_prefs = MODERATE"
  "experience_level scenario_b_prefs = INTERMEDIATE"
  "max_budget scenario_b_prefs = Some 6000"
  by (simp_all add: scenario_b_prefs_def)

lemma scenario_b_max_budget: "resolve_max_budget scenario_b_prefs = 6000"
  by (simp add: resolve_max_budget_def py_or_def scenario_b_fields)

lemma tesla_engine: "engine_type tesla_model_3 = ELECTRIC"
  by (simp add: tesla_model_3_def)

lemma scenario_b_working_list:
  "all_recommendations tesla_model_3 scenario_b_prefs = Inr [recommend big_brake_kit BRAKE_SYSTEM 10.0]"
  by (simp add: all_recommendations_def scenario_b_max_budget scenario_b_fields
      intermediate_filter_lookup generate_goal_recommendations_def goal_priorities_def
      get_tuning_options_for_category_def tuning_options_def consider_option_recommend
      intermediate_passes kb_cost_range kb_ecu_in_name is_compatible_with_engine_def
      tesla_engine adjust_priority_score_def kb_priority_score kb_safety_level)

lemma scenario_b_recommendations:
  assumes "generate_recommendations now tesla_model_3 scenario_b_prefs = Inr report"
  shows "recommendations report = [recommend big_brake_kit BRAKE_SYSTEM 10.0]"
proof -
  from assms have "recommendations report =
      filter_by_budget (sorted_candidates [recommend big_brake_kit BRAKE_SYSTEM 10.0])
        (resolve_max_budget scenario_b_prefs)"
    using scenario_b_working_list by (rule emitted_eq)
  then show ?thesis
    by (simp add: sorted_candidates_def deduplicate_recommendations_def py_sorted_reverse_def
        filter_by_budget_def scenario_b_max_budget kb_cost_range)
qed


section \<open>Scenario C: a beginner on a budget, at most 2000\<close>

lemma scenario_c_fields:
  "primary_goals scenario_c_prefs = [DAILY_COMFORT, FUEL_ECONOMY]"
  "budget_range scenario_c_prefs = BUDGET"
  "experience_level scenario_c_prefs = BEGINNER"
  "max_budget scenario_c_prefs = Some 2000"
  by (simp_all add: scenario_c_prefs_def)

lemma scenario_c_max_budget: "resolve_max_budget scenario_c_prefs = 2000"
  by (simp add: resolve_max_budget_def py_or_def scenario_c_fields)

lemma scenario_c_working_list:
  "all_recommendations car scenario_c_prefs = Inr [
     recommend lowering_springs SUSPENSION 7.92,
     recommend lightweight_wheels TIRES_WHEELS 7.8,
     recommend cold_air_intake_system AIR_INTAKE 8.58,
     recommend performance_air_filter AIR_INTAKE 6.6,
     recommend lightweight_wheels TIRES_WHEELS 7.8]"
  by (simp add: all_recommendations_def scenario_c_max_budget scenario_c_fields
      beginner_filter_lookup generate_goal_recommendations_def goal_priorities_def
      get_tuning_options_for_category_def tuning_options_def consider_option_recommend
      beginner_passes kb_cost_range no_ecu_in_name adjust_priority_score_def
      kb_priority_score kb_safety_level)

lemma scenario_c_deduplicated:
  "deduplicate_recommendations [
     recommend lowering_springs SUSPENSION 7.92,
     recommend lightweight_wheels TIRES_WHEELS 7.8,
     recommend cold_air_intake_system AIR_INTAKE 8.58,
     recommend performance_air_filter AIR_INTAKE 6.6,
     recommend lightweight_wheels TIRES_WHEELS 7.8]
   = [recommend lowering_springs SUSPENSION 7.92,
      recommend lightweight_wheels TIRES_WHEELS 7.8,
      recommend cold_air_intake_system AIR_INTAKE 8.58,
      recommend performance_air_filter AIR_INTAKE 6.6]"
  by (simp add: deduplicate_recommendations_def kb_name)

lemma scenario_c_sorted:
  "py_sorted_reverse priority_score [
     recommend lowering_springs SUSPENSION 7.92,
     recommend lightweight_wheels TIRES_WHEELS 7.8,
     recommend cold_air_intake_system AIR_INTAKE 8.58,
     recommend performance_air_filter AIR_INTAKE 6.6]
   = [recommend cold_air_intake_system AIR_INTAKE 8.58,
      recommend lowering_springs SUSPENSION 7.92,
      recommend lightweight_wheels TIRES_WHEELS 7.8,
      recommend performance_air_filter AIR_INTAKE 6.6]"
  by (simp add: py_sorted_reverse_def)

lemma scenario_c_selected:
  "greedy_select 0 2000 0 [
     recommend cold_air_intake_system AIR_INTAKE 8.58,
     recommend lowering_springs SUSPENSION 7.92,
     recommend lightweight_wheels TIRES_WHEELS 7.8,
     recommend performance_air_filter AIR_INTAKE 6.6]
   = [(recommend cold_air_intake_system AIR_INTAKE 8.58, 500),
      (recommend lowering_springs SUSPENSION 7.92, 800),
      (recommend lightweight_wheels TIRES_WHEELS 7.8, 600),
      (recommend performance_air_filter AIR_INTAKE 6.6, 50)]"
  by (simp add: kb_cost_range)

lemma scenario_c_filtered:
  "filter_by_budget [
     recommend cold_air_intake_system AIR_INTAKE 8.58,
     recommend lowering_springs SUSPENSION 7.92,
     recommend lightweight_wheels TIRES_WHEELS 7.8,
     recommend performance_air_filter AIR_INTAKE 6.6] 2000
   = [recommend cold_air_intake_system AIR_INTAKE 8.58,
      recommend lowering_springs SUSPENSION 7.92,
      recommend lightweight_wheels TIRES_WHEELS 7.8,
      recommend performance_air_filter AIR_INTAKE 6.6]"
  by (simp add: filter_by_budget_def kb_cost_range)

lemma scenario_c_recommendations:
  assumes "generate_recommendations now car scenario_c_prefs = Inr report"
  shows "recommendations report =
     [recommend cold_air_intake_system AIR_INTAKE 8.58,
      recommend lowering_springs SUSPENSION 7.92,
      recommend lightweight_wheels TIRES_WHEELS 7.8,
      recommend performance_air_filter AIR_INTAKE 6.6]"
proof -
  from assms have "recommendations report =
      filter_by_budget
        (sorted_candidates [
           recommend lowering_springs SUSPENSION 7.92,
           recommend lightweight_wheels TIRES_WHEELS 7.8,
           recommend cold_air_intake_system AIR_INTAKE 8.58,
           recommend performance_air_filter AIR_INTAKE 6.6,
           recommend lightweight_wheels TIRES_WHEELS 7.8])
        (resolve_max_budget scenario_c_prefs)"
    using scenario_c_working_list by (rule emitted_eq)
  then show ?thesis
    by (simp only: sorted_candidates_def scenario_c_deduplicated scenario_c_sorted
        scenario_c_max_budget scenario_c_filtered)
qed

lemma scenario_c_total:
  "calculate_total_cost
     [recommend cold_air_intake_system AIR_INTAKE 8.58,
      recommend lowering_springs SUSPENSION 7.92,
      recommend lightweight_wheels TIRES_WHEELS 7.8,
      recommend performance_air_filter AIR_INTAKE 6.6]
   = \<lparr>total_min = 1000, total_max = 3500, currency = ''USD''\<rparr>"
  by (simp add: calculate_total_cost_def kb_cost_range)

section \<open>The claims\<close>

subsection \<open>C1: the safety ceiling of the experience filter\<close>

text \<open>
  C1 says that the ceiling test rejects an option exactly when its safety level is above
  the filter's maximum in the order low, medium, high, so that an intermediate or advanced
  user, whose maximum is high, loses no option to it. The code compares the
  \<^verbatim>\<open>.value\<close> strings instead, and as strings \<^verbatim>\<open>"high" < "low" < "medium"\<close>. For
  the advanced filter and the catalogue entry Performance Tires, whose level is low, the
  ceiling test fires and the filter rejects the entry, although low is below high.
\<close>

theorem C1_ceiling_compares_value_strings:
  "map_of experience_filters ADVANCED = Some advanced_filter
   \<and> max_safety_level advanced_filter = HIGH
   \<and> safety_level performance_tires = LOW
   \<and> SafetyLevel_ordinal (safety_level performance_tires)
        < SafetyLevel_ordinal (max_safety_level advanced_filter)
   \<and> exceeds_max_safety_level performance_tires advanced_filter
   \<and> passes_experience_filters performance_tires advanced_filter = False"
  by (simp add: advanced_filter_lookup kb_safety_level SafetyLevel_ordinal_def
      passes_experience_filters_def exceeds_max_safety_level_def advanced_filter_def)

subsection \<open>C2: the beginner scenario with a budget of 2000\<close>

text \<open>
  C2 as stated asks of the report for scenario C that the total of the maximum costs is at
  most 2000. It is 3500: the budget pass accepts Lightweight Wheels and Performance Air
  Filter through the minimum-cost fallback and charges them 600 and 50, while the total
  adds their maximum costs 2000 and 200.
\<close>

theorem C2_total_max_exceeds_budget:
  "\<not> total_max_within 2000
       (generate_recommendations timestamp toyota_camry scenario_c_prefs)"
proof -
  obtain report where
    g: "generate_recommendations timestamp toyota_camry scenario_c_prefs = Inr report"
    using generate_recommendations_returns by blast
  from g have "total_estimated_cost report = calculate_total_cost (recommendations report)"
    by (elim generate_recommendations_Inr)
  then have "total_estimated_cost report
      = \<lparr>total_min = 1000, total_max = 3500, currency = ''USD''\<rparr>"
    by (simp only: scenario_c_recommendations [OF g] scenario_c_total)
  with g show ?thesis by (simp add: total_max_within_def)
qed

text \<open>
  C2, amended: for scenario C and any vehicle and clock reading, the engine returns a
  report with the four recommendations below, in this order; each has safety level low or
  medium and a maximum cost of at most 2000; the total of the minimum costs is 1000 and
  the total of the maximum costs is 3500.
\<close>

theorem C2_scenario_c_report:
  "\<exists>report. generate_recommendations now car scenario_c_prefs = Inr report
     \<and> recommendations report =
         [recommend cold_air_intake_system AIR_INTAKE 8.58,
          recommend lowering_springs SUSPENSION 7.92,
          recommend lightweight_wheels TIRES_WHEELS 7.8,
          recommend performance_air_filter AIR_INTAKE 6.6]
     \<and> list_all (\<lambda>r. safety_level r = LOW \<or> safety_level r = MEDIUM) (recommendations report)
     \<and> list_all (\<lambda>r. cost_max (cost_range r) \<le> 2000) (recommendations report)
     \<and> total_estimated_cost report
         = \<lparr>total_min = 1000, total_max = 3500, currency = ''USD''\<rparr>"
proof -
  obtain report where g: "generate_recommendations now car scenario_c_prefs = Inr report"
    using generate_recommendations_returns by blast
  note recs = scenario_c_recommendations [OF g]
  from g have "total_estimated_cost report = calculate_total_cost (recommendations report)"
    by (elim generate_recommendations_Inr)
  with recs have "total_estimated_cost report
      = \<lparr>total_min = 1000, total_max = 3500, currency = ''USD''\<rparr>"
    by (simp only: scenario_c_total)
  moreover have "list_all (\<lambda>r. safety_level r = LOW \<or> safety_level r = MEDIUM)
      (recommendations report)"
    by (simp add: recs kb_safety_level)
  moreover have "list_all (\<lambda>r. cost_max (cost_range r) \<le> 2000) (recommendations report)"
    by (simp add: recs kb_cost_range)
  ultimately show ?thesis using g recs by blast
qed

theorem C2_scenario_c_report_witness:
  "\<exists>report. generate_recommendations timestamp toyota_camry scenario_c_prefs = Inr report
     \<and> recommendations report =
         [recommend cold_air_intake_system AIR_INTAKE 8.58,
          recommend lowering_springs SUSPENSION 7.92,
          recommend lightweight_wheels TIRES_WHEELS 7.8,
          recommend performance_air_filter AIR_INTAKE 6.6]
     \<and> list_all (\<lambda>r. safety_level r = LOW \<or> safety_level r = MEDIUM) (recommendations report)
     \<and> list_all (\<lambda>r. cost_max (cost_range r) \<le> 2000) (recommendations report)
     \<and> total_estimated_cost report
         = \<lparr>total_min = 1000, total_max = 3500, currency = ''USD''\<rparr>"
  by (rule C2_scenario_c_report)

subsection \<open>C3: the resolved spending cap\<close>

text \<open>
  C3 as stated makes a maximum budget that is present the spending cap, zero included.
  The engine resolves the cap with \<^verbatim>\<open>max_budget or budget_range["max"]\<close>, and a zero
  float is false in Python: with a maximum budget of 0 and the budget tier, the cap is
  the tier's upper bound 2000, not 0.
\<close>

theorem C3_zero_max_budget_is_ignored:
  "max_budget zero_budget_prefs = Some 0
   \<and> cost_max (get_budget_range (budget_range zero_budget_prefs)) = 2000
   \<and> resolve_max_budget zero_budget_prefs = 2000
   \<and> resolve_max_budget zero_budget_prefs \<noteq> 0"
  by (simp add: zero_budget_prefs_def resolve_max_budget_def py_or_def get_budget_range_def
      budget_ranges_def)

text \<open>
  C3, amended: the spending cap that the engine resolves is the maximum budget of the
  preferences whenever that is present and not zero, and the upper bound that the
  knowledge base gives for the budget tier otherwise, that is when the maximum budget is
  absent or zero. This cap is the one used by both budget tests of the engine: the test
  of each option while the working list is built, and the selection over the sorted
  candidates.
\<close>

theorem C3_resolved_cap:
  "(\<forall>m. max_budget prefs = Some m \<longrightarrow> m \<noteq> 0 \<longrightarrow> resolve_max_budget prefs = m)
   \<and> (max_budget prefs = None \<or> max_budget prefs = Some 0 \<longrightarrow>
        resolve_max_budget prefs = cost_max (get_budget_range (budget_range prefs)))
   \<and> (\<forall>car filters.
        map_of experience_filters (experience_level prefs) = Some filters \<longrightarrow>
        all_recommendations car prefs =
          goals_loop car prefs (resolve_max_budget prefs) filters (primary_goals prefs))
   \<and> (\<forall>now car report all_recs.
        generate_recommendations now car prefs = Inr report \<longrightarrow>
        all_recommendations car prefs = Inr all_recs \<longrightarrow>
        recommendations report =
          filter_by_budget (sorted_candidates all_recs) (resolve_max_budget prefs))"
proof (intro conjI allI impI)
  fix m
  assume "max_budget prefs = Some m" and "m \<noteq> 0"
  then show "resolve_max_budget prefs = m"
    by (simp add: resolve_max_budget_cases)
next
  assume "max_budget prefs = None \<or> max_budget prefs = Some 0"
  then show "resolve_max_budget prefs = cost_max (get_budget_range (budget_range prefs))"
    by (auto simp: resolve_max_budget_cases)
next
  fix car filters
  assume "map_of experience_filters (experience_level prefs) = Some filters"
  then show "all_recommendations car prefs =
      goals_loop car prefs (resolve_max_budget prefs) filters (primary_goals prefs)"
    by (simp add: all_recommendations_def)
next
  fix now car report all_recs
  assume "generate_recommendations now car prefs = Inr report"
    and "all_recommendations car prefs = Inr all_recs"
  then show "recommendations report =
      filter_by_budget (sorted_candidates all_recs) (resolve_max_budget prefs)"
    by (rule emitted_eq)
qed

theorem C3_resolved_cap_witness:
  "max_budget scenario_c_prefs = Some 2000
   \<and> (2000 :: rat) \<noteq> 0
   \<and> resolve_max_budget scenario_c_prefs = 2000
   \<and> max_budget empty_goals_prefs = None
   \<and> budget_range empty_goals_prefs = MODERATE
   \<and> cost_max (get_budget_range MODERATE) = 8000
   \<and> resolve_max_budget empty_goals_prefs = 8000"
proof -
  have present: "max_budget scenario_c_prefs = Some 2000"
    by (simp add: scenario_c_fields)
  have nonzero: "(2000 :: rat) \<noteq> 0"
    by simp
  from C3_resolved_cap [of scenario_c_prefs]
  have "\<forall>m. max_budget scenario_c_prefs = Some m \<longrightarrow> m \<noteq> 0 \<longrightarrow>
      resolve_max_budget scenario_c_prefs = m"
    by (rule conjunct1)
  with present nonzero have cap: "resolve_max_budget scenario_c_prefs = 2000"
    by blast
  have absent: "max_budget empty_goals_prefs = None"
    by (simp add: empty_goals_prefs_def)
  have tier: "budget_range empty_goals_prefs = MODERATE"
    by (simp add: empty_goals_prefs_def)
  have bound: "cost_max (get_budget_range MODERATE) = 8000"
    by (simp add: get_budget_range_def budget_ranges_def)
  from C3_resolved_cap [of empty_goals_prefs]
  have "max_budget empty_goals_prefs = None \<or> max_budget empty_goals_prefs = Some 0 \<longrightarrow>
      resolve_max_budget empty_goals_prefs
        = cost_max (get_budget_range (budget_range empty_goals_prefs))"
    by (elim conjE)
  with absent have "resolve_max_budget empty_goals_prefs
      = cost_max (get_budget_range (budget_range empty_goals_prefs))"
    by blast
  then have fallback: "resolve_max_budget empty_goals_prefs = 8000"
    by (simp only: tier bound)
  from present nonzero cap absent tier bound fallback show ?thesis
    by (intro conjI) assumption+
qed

subsection \<open>C4: the budget selection\<close>

text \<open>
  C4: the emitted recommendations are the candidates accepted by one pass from left to
  right over the sorted, deduplicated list, with the amount spent starting at 0 and the
  pass stopping at ten accepted candidates (\<^const>\<open>greedy_select\<close>); this is the first ten
  of what the loop of the code accepts. A candidate is accepted at its maximum cost when
  that fits, else at its minimum cost when that fits, else skipped. So at most ten are
  emitted, in the order of the sorted list, and the amounts charged for any non-empty
  prefix of the output sum to at most the resolved cap; for the empty prefix the sum is 0,
  which is within the cap for every maximum budget the model class admits.
\<close>

theorem C4_budget_selection:
  assumes "generate_recommendations now car prefs = Inr report"
    and "all_recommendations car prefs = Inr all_recs"
  shows "(recommendations report = map fst (budget_selection prefs all_recs))
     \<and> (recommendations report
       = take 10 (budget_loop (resolve_max_budget prefs) 0 (sorted_candidates all_recs)))
     \<and> (length (recommendations report) \<le> 10)
     \<and> (subseq (recommendations report) (sorted_candidates all_recs))
     \<and> (\<forall>k. 0 < k \<and> k \<le> length (budget_selection prefs all_recs) \<longrightarrow>
          sum_list (take k (map snd (budget_selection prefs all_recs)))
            \<le> resolve_max_budget prefs)
     \<and> (valid_preferences prefs \<longrightarrow>
        (\<forall>k \<le> length (budget_selection prefs all_recs).
           sum_list (take k (map snd (budget_selection prefs all_recs)))
             \<le> resolve_max_budget prefs))
     \<and> (\<forall>(c, amount) \<in> set (budget_selection prefs all_recs).
          amount = cost_max (cost_range c) \<or> amount = cost_min (cost_range c))"
proof -
  let ?mb = "resolve_max_budget prefs"
  let ?candidates = "sorted_candidates all_recs"
  let ?selection = "greedy_select 0 ?mb 0 ?candidates"
  have selection: "budget_selection prefs all_recs = ?selection"
    by (simp add: budget_selection_def)
  from assms have recs: "recommendations report = filter_by_budget ?candidates ?mb"
    by (rule emitted_eq)
  then have code: "recommendations report = take 10 (budget_loop ?mb 0 ?candidates)"
    by (simp add: filter_by_budget_def)
  then have "recommendations report = map fst ?selection"
    by (simp add: greedy_select_items)
  from code have "length (recommendations report) \<le> 10" by simp
  from recs have "subseq (recommendations report) ?candidates"
    by (simp add: subseq_filter_by_budget)
  have "\<forall>(c, amount) \<in> set ?selection.
      amount = cost_max (cost_range c) \<or> amount = cost_min (cost_range c)"
    using greedy_select_amounts by blast
  have nonempty: "\<forall>k. 0 < k \<and> k \<le> length ?selection \<longrightarrow>
      sum_list (take k (map snd ?selection)) \<le> ?mb"
    using greedy_select_prefix_sums [of _ 0 ?mb 0 ?candidates] by auto
  have "valid_preferences prefs \<longrightarrow>
      (\<forall>k \<le> length ?selection. sum_list (take k (map snd ?selection)) \<le> ?mb)"
  proof (intro impI allI)
    fix k
    assume v: "valid_preferences prefs" and k: "k \<le> length ?selection"
    show "sum_list (take k (map snd ?selection)) \<le> ?mb"
    proof (cases "k = 0")
      case True
      with resolve_max_budget_nonneg [OF v] show ?thesis by simp
    next
      case False
      with k nonempty show ?thesis by simp
    qed
  qed
  show ?thesis unfolding selection by (intro conjI) fact+
qed

theorem C4_budget_selection_witness:
  "\<exists>report all_recs.
     generate_recommendations timestamp toyota_camry scenario_c_prefs = Inr report
     \<and> all_recommendations toyota_camry scenario_c_prefs = Inr all_recs
     \<and> recommendations report = map fst (budget_selection scenario_c_prefs all_recs)
     \<and> map snd (budget_selection scenario_c_prefs all_recs)
         = [500, 800, 600, 50]
     \<and> length (recommendations report) \<le> 10
     \<and> sum_list (take 4 (map snd (budget_selection scenario_c_prefs all_recs)))
         \<le> resolve_max_budget scenario_c_prefs"
proof -
  let ?all = "[
     recommend lowering_springs SUSPENSION 7.92,
     recommend lightweight_wheels TIRES_WHEELS 7.8,
     recommend cold_air_intake_system AIR_INTAKE 8.58,
     recommend performance_air_filter AIR_INTAKE 6.6,
     recommend lightweight_wheels TIRES_WHEELS 7.8]"
  let ?selection = "budget_selection scenario_c_prefs ?all"
  obtain report where
    g: "generate_recommendations timestamp toyota_camry scenario_c_prefs = Inr report"
    using generate_recommendations_returns by blast
  have a: "all_recommendations toyota_camry scenario_c_prefs = Inr ?all"
    by (rule scenario_c_working_list)
  have sel: "?selection =
     [(recommend cold_air_intake_system AIR_INTAKE 8.58, 500),
      (recommend lowering_springs SUSPENSION 7.92, 800),
      (recommend lightweight_wheels TIRES_WHEELS 7.8, 600),
      (recommend performance_air_filter AIR_INTAKE 6.6, 50)]"
    by (simp only: budget_selection_def sorted_candidates_def scenario_c_deduplicated
        scenario_c_sorted scenario_c_max_budget scenario_c_selected)
  note t = C4_budget_selection [OF g a]
  from t have items: "recommendations report = map fst ?selection"
    by (rule conjunct1)
  from t have len: "length (recommendations report) \<le> 10"
    by (elim conjE)
  from t have "\<forall>k. 0 < k \<and> k \<le> length ?selection \<longrightarrow>
      sum_list (take k (map snd ?selection)) \<le> resolve_max_budget scenario_c_prefs"
    by (elim conjE)
  then have "0 < (4::nat) \<and> 4 \<le> length ?selection \<longrightarrow>
      sum_list (take 4 (map snd ?selection)) \<le> resolve_max_budget scenario_c_prefs"
    by (rule spec)
  moreover have "0 < (4::nat) \<and> 4 \<le> length ?selection"
    unfolding sel by simp
  ultimately have sum: "sum_list (take 4 (map snd ?selection))
      \<le> resolve_max_budget scenario_c_prefs"
    by (rule mp)
  have amounts: "map snd ?selection = [500, 800, 600, 50]"
    unfolding sel by simp
  from g a items amounts len sum show ?thesis
    by (intro exI [where x = report] exI [where x = "?all"] conjI) assumption+
qed

subsection \<open>C5: deduplication\<close>

text \<open>
  C5: no two recommendations of a report have the same category and name. Deduplication
  keeps exactly the elements of the working list that stand at the first position of
  their category and name, in the order of the working list: the result is the list of
  the elements at the positions \<^const>\<open>first_positions\<close>, and it is what
  \<^const>\<open>keep_first\<close> computes. So each kept recommendation is the first one generated and
  adjusted for its category and name, with the score adjusted under the first goal that
  produced it, and the report is built from this list.
\<close>

theorem C5_deduplication:
  assumes "generate_recommendations now car prefs = Inr report"
    and "all_recommendations car prefs = Inr all_recs"
  shows "(distinct (map rec_key (recommendations report)))
     \<and> (deduplicate_recommendations all_recs = nths all_recs (first_positions all_recs))
     \<and> (deduplicate_recommendations all_recs = keep_first all_recs)
     \<and> (recommendations report =
          filter_by_budget (py_sorted_reverse priority_score (keep_first all_recs))
            (resolve_max_budget prefs))
     \<and> (\<forall>r \<in> set (recommendations report).
          find (\<lambda>x. rec_key x = rec_key r) all_recs = Some r)
     \<and> (distinct (map rec_key (deduplicate_recommendations all_recs)))
     \<and> (rec_key ` set (deduplicate_recommendations all_recs) = rec_key ` set all_recs)
     \<and> (\<forall>r \<in> set (deduplicate_recommendations all_recs).
          find (\<lambda>x. rec_key x = rec_key r) all_recs = Some r)
     \<and> (subseq (deduplicate_recommendations all_recs) all_recs)"
proof -
  let ?unique = "deduplicate_recommendations all_recs"
  from assms have recs: "recommendations report
      = filter_by_budget (sorted_candidates all_recs) (resolve_max_budget prefs)"
    by (rule emitted_eq)
  have "?unique = nths all_recs (first_positions all_recs)"
    by (rule deduplicate_nths)
  have k: "?unique = keep_first all_recs"
    by (rule deduplicate_keep_first)
  from recs have "recommendations report =
      filter_by_budget (py_sorted_reverse priority_score (keep_first all_recs))
        (resolve_max_budget prefs)"
    by (simp only: sorted_candidates_def k)
  have d: "distinct (map rec_key ?unique)"
    by (simp add: deduplicate_recommendations_def distinct_dedup_loop)
  then have "distinct (map rec_key (sorted_candidates all_recs))"
    by (simp only: sorted_candidates_def distinct_map_py_sorted_reverse)
  moreover have "subseq (map rec_key (recommendations report))
      (map rec_key (sorted_candidates all_recs))"
    unfolding recs by (intro subseq_map subseq_filter_by_budget)
  ultimately have "distinct (map rec_key (recommendations report))"
    by (rule subseq_distinct [rotated])
  have f: "\<forall>r \<in> set ?unique. find (\<lambda>x. rec_key x = rec_key r) all_recs = Some r"
    by (simp add: deduplicate_recommendations_def dedup_loop_first)
  have "set (recommendations report) \<subseteq> set ?unique"
    unfolding recs using set_filter_by_budget_subset [of "sorted_candidates all_recs"]
    by (simp add: sorted_candidates_def set_py_sorted_reverse)
  with f have "\<forall>r \<in> set (recommendations report).
      find (\<lambda>x. rec_key x = rec_key r) all_recs = Some r"
    by blast
  have "rec_key ` set ?unique = rec_key ` set all_recs"
    by (simp add: deduplicate_recommendations_def keys_dedup_loop)
  have "subseq ?unique all_recs"
    by (simp add: deduplicate_recommendations_def subseq_dedup_loop)
  show ?thesis by (intro conjI) fact+
qed

theorem C5_deduplication_witness:
  "\<exists>report all_recs.
     generate_recommendations timestamp toyota_camry scenario_c_prefs = Inr report
     \<and> all_recommendations toyota_camry scenario_c_prefs = Inr all_recs
     \<and> map name all_recs =
         [''Lowering Springs'', ''Lightweight Wheels'', ''Cold Air Intake System'',
          ''Performance Air Filter'', ''Lightweight Wheels'']
     \<and> map name (keep_first all_recs) =
         [''Lowering Springs'', ''Lightweight Wheels'', ''Cold Air Intake System'',
          ''Performance Air Filter'']
     \<and> deduplicate_recommendations all_recs = keep_first all_recs
     \<and> map name (deduplicate_recommendations all_recs) =
         [''Lowering Springs'', ''Lightweight Wheels'', ''Cold Air Intake System'',
          ''Performance Air Filter'']
     \<and> distinct (map rec_key (recommendations report))
     \<and> subseq (deduplicate_recommendations all_recs) all_recs"
proof -
  let ?all = "[
     recommend lowering_springs SUSPENSION 7.92,
     recommend lightweight_wheels TIRES_WHEELS 7.8,
     recommend cold_air_intake_system AIR_INTAKE 8.58,
     recommend performance_air_filter AIR_INTAKE 6.6,
     recommend lightweight_wheels TIRES_WHEELS 7.8]"
  obtain report where
    g: "generate_recommendations timestamp toyota_camry scenario_c_prefs = Inr report"
    using generate_recommendations_returns by blast
  have a: "all_recommendations toyota_camry scenario_c_prefs = Inr ?all"
    by (rule scenario_c_working_list)
  note t = C5_deduplication [OF g a]
  from t have d1: "distinct (map rec_key (recommendations report))"
    by (rule conjunct1)
  from t have k: "deduplicate_recommendations ?all = keep_first ?all"
    by (elim conjE)
  from t have s: "subseq (deduplicate_recommendations ?all) ?all"
    by (elim conjE)
  have n1: "map name ?all =
      [''Lowering Springs'', ''Lightweight Wheels'', ''Cold Air Intake System'',
       ''Performance Air Filter'', ''Lightweight Wheels'']"
    by (simp add: kb_name)
  have n2: "map name (keep_first ?all) =
      [''Lowering Springs'', ''Lightweight Wheels'', ''Cold Air Intake System'',
       ''Performance Air Filter'']"
    by (simp add: rec_key_def kb_name)
  from n2 have n3: "map name (deduplicate_recommendations ?all) =
      [''Lowering Springs'', ''Lightweight Wheels'', ''Cold Air Intake System'',
       ''Performance Air Filter'']"
    by (simp only: k)
  from g a n1 n2 k n3 d1 s show ?thesis
    by (intro exI [where x = report] exI [where x = "?all"] conjI) assumption+
qed

subsection \<open>C6: the order of the output\<close>

text \<open>
  C6: the emitted recommendations are in descending order of priority score, ties allowed,
  and the sort is stable: for every score, the emitted recommendations with that score
  appear in the relative order they have in the deduplicated list before sorting, and the
  sorted list holds exactly the recommendations of that score in that order.
\<close>

theorem C6_output_order:
  assumes "generate_recommendations now car prefs = Inr report"
    and "all_recommendations car prefs = Inr all_recs"
  shows "(sorted_wrt (\<lambda>a b. priority_score a \<ge> priority_score b) (recommendations report))
     \<and> (\<forall>k. subseq (filter (\<lambda>r. priority_score r = k) (recommendations report))
               (filter (\<lambda>r. priority_score r = k) (deduplicate_recommendations all_recs)))
     \<and> (\<forall>k. filter (\<lambda>r. priority_score r = k) (sorted_candidates all_recs)
             = filter (\<lambda>r. priority_score r = k) (deduplicate_recommendations all_recs))"
proof -
  let ?unique = "deduplicate_recommendations all_recs"
  let ?sorted = "sorted_candidates all_recs"
  from assms have recs: "recommendations report
      = filter_by_budget ?sorted (resolve_max_budget prefs)"
    by (rule emitted_eq)
  then have sub: "subseq (recommendations report) ?sorted"
    by (simp add: subseq_filter_by_budget)
  have "sorted_wrt (\<lambda>a b. priority_score a \<ge> priority_score b) ?sorted"
    unfolding sorted_candidates_def by (rule py_sorted_reverse_descending)
  with sub have "sorted_wrt (\<lambda>a b. priority_score a \<ge> priority_score b)
      (recommendations report)"
    by (rule subseq_sorted_wrt)
  have stable: "\<forall>k. filter (\<lambda>r. priority_score r = k) ?sorted
      = filter (\<lambda>r. priority_score r = k) ?unique"
    by (simp add: sorted_candidates_def py_sorted_reverse_stable)
  have "\<forall>k. subseq (filter (\<lambda>r. priority_score r = k) (recommendations report))
      (filter (\<lambda>r. priority_score r = k) ?unique)"
  proof
    fix k
    from sub have "subseq (filter (\<lambda>r. priority_score r = k) (recommendations report))
        (filter (\<lambda>r. priority_score r = k) ?sorted)"
      by (rule subseq_filter)
    with stable show "subseq (filter (\<lambda>r. priority_score r = k) (recommendations report))
        (filter (\<lambda>r. priority_score r = k) ?unique)"
      by simp
  qed
  show ?thesis by (intro conjI) fact+
qed

theorem C6_output_order_witness:
  "\<exists>report all_recs.
     generate_recommendations timestamp bmw_3_series scenario_a_prefs = Inr report
     \<and> all_recommendations bmw_3_series scenario_a_prefs = Inr all_recs
     \<and> map name (recommendations report) = [''Stage 2 ECU Remap'', ''Big Brake Kit'']
     \<and> map priority_score (recommendations report) = [10, 10]
     \<and> map name (deduplicate_recommendations all_recs)
         = [''Stage 2 ECU Remap'', ''Big Brake Kit'']
     \<and> sorted_wrt (\<lambda>a b. priority_score a \<ge> priority_score b) (recommendations report)
     \<and> subseq (filter (\<lambda>r. priority_score r = 10) (recommendations report))
          (filter (\<lambda>r. priority_score r = 10) (deduplicate_recommendations all_recs))"
proof -
  let ?all = "[
     recommend stage_2_ecu_remap ECU_REMAPPING 10.0,
     recommend big_brake_kit BRAKE_SYSTEM 10.0,
     recommend stage_2_ecu_remap ECU_REMAPPING 10.0,
     recommend big_brake_kit BRAKE_SYSTEM 10.0]"
  obtain report where
    g: "generate_recommendations timestamp bmw_3_series scenario_a_prefs = Inr report"
    using generate_recommendations_returns by blast
  have a: "all_recommendations bmw_3_series scenario_a_prefs = Inr ?all"
    by (rule scenario_a_working_list)
  note recs = scenario_a_recommendations [OF g]
  note t = C6_output_order [OF g a]
  from t have s: "sorted_wrt (\<lambda>a b. priority_score a \<ge> priority_score b)
      (recommendations report)"
    by (rule conjunct1)
  from t have "\<forall>k. subseq (filter (\<lambda>r. priority_score r = k) (recommendations report))
      (filter (\<lambda>r. priority_score r = k) (deduplicate_recommendations ?all))"
    by (elim conjE)
  then have st: "subseq (filter (\<lambda>r. priority_score r = 10) (recommendations report))
      (filter (\<lambda>r. priority_score r = 10) (deduplicate_recommendations ?all))"
    by (rule spec)
  have n: "map name (recommendations report) = [''Stage 2 ECU Remap'', ''Big Brake Kit'']"
    unfolding recs by (simp add: kb_name)
  have p: "map priority_score (recommendations report) = [10, 10]"
    unfolding recs by simp
  have u: "map name (deduplicate_recommendations ?all)
      = [''Stage 2 ECU Remap'', ''Big Brake Kit'']"
    unfolding scenario_a_deduplicated by (simp add: kb_name)
  from g a n p u s st show ?thesis
    by (intro exI [where x = report] exI [where x = "?all"] conjI) assumption+
qed

subsection \<open>C7: the engine rule\<close>

text \<open>
  C7: for an electric vehicle no emitted recommendation has a name that contains
  \<^verbatim>\<open>ECU\<close>, and for every engine type other than electric the compatibility rule accepts
  every option.
\<close>

theorem C7_engine_rule:
  "(engine_type car = ELECTRIC \<longrightarrow> generate_recommendations now car prefs = Inr report \<longrightarrow>
      (\<forall>r \<in> set (recommendations report). \<not> sublist ''ECU'' (name r)))
   \<and> (\<forall>opt engine. engine \<noteq> ELECTRIC \<longrightarrow> is_compatible_with_engine opt engine)"
proof (intro conjI impI ballI allI)
  fix r
  assume e: "engine_type car = ELECTRIC"
    and g: "generate_recommendations now car prefs = Inr report"
    and r: "r \<in> set (recommendations report)"
  from emitted_origin [OF g r] obtain filters goal cat opt where
    c: "consider_option car prefs goal (resolve_max_budget prefs) filters cat opt = Some r"
    by blast
  then have "is_compatible_with_engine opt (engine_type car)" and "name r = name opt"
    by (simp_all add: consider_option_Some)
  with e show "\<not> sublist ''ECU'' (name r)"
    by (simp add: is_compatible_with_engine_def split: if_splits)
next
  fix opt engine
  assume "engine \<noteq> ELECTRIC"
  then show "is_compatible_with_engine opt engine" by (rule is_compatible_not_electric)
qed

theorem C7_engine_rule_witness:
  "engine_type tesla_model_3 = ELECTRIC
   \<and> (\<exists>report. generate_recommendations timestamp tesla_model_3 scenario_b_prefs = Inr report
        \<and> map name (recommendations report) = [''Big Brake Kit'']
        \<and> list_all (\<lambda>r. \<not> sublist ''ECU'' (name r)) (recommendations report))
   \<and> PETROL \<noteq> ELECTRIC
   \<and> is_compatible_with_engine stage_1_ecu_remap PETROL"
proof -
  obtain report where
    g: "generate_recommendations timestamp tesla_model_3 scenario_b_prefs = Inr report"
    using generate_recommendations_returns by blast
  note t = C7_engine_rule [of tesla_model_3 timestamp scenario_b_prefs report]
  from t tesla_engine g
  have "\<forall>r \<in> set (recommendations report). \<not> sublist ''ECU'' (name r)"
    by blast
  then have l: "list_all (\<lambda>r. \<not> sublist ''ECU'' (name r)) (recommendations report)"
    by (simp only: list_all_iff)
  have n: "map name (recommendations report) = [''Big Brake Kit'']"
    unfolding scenario_b_recommendations [OF g] by (simp add: kb_name)
  from t have "\<forall>opt engine. engine \<noteq> ELECTRIC \<longrightarrow> is_compatible_with_engine opt engine"
    by (rule conjunct2)
  then have p: "is_compatible_with_engine stage_1_ecu_remap PETROL"
    by simp
  have ne: "PETROL \<noteq> ELECTRIC" by simp
  from tesla_engine g n l ne p show ?thesis
    by (intro exI [where x = report] conjI) assumption+
qed

subsection \<open>C8: the adjusted priority score\<close>

text \<open>
  C8: every recommendation of the working list comes from a goal of the preferences and a
  catalogue entry of one of that goal's categories, and its score is the entry's base score
  times 1.2, times 0.7 for a beginner and a high-risk entry, times 1.1 for the budget tier
  and a maximum cost below 1000, capped at 10. The factor 1.2 is always applied, since the
  goal under which the score is adjusted is one of the primary goals.
\<close>

theorem C8_adjusted_score:
  assumes "all_recommendations car prefs = Inr all_recs" and "r \<in> set all_recs"
  shows "(\<exists>goal \<in> set (primary_goals prefs). \<exists>cat.
          \<exists>opt \<in> set (get_tuning_options_for_category cat).
            category r = cat \<and> name r = name opt \<and> cost_range r = cost_range opt \<and>
            safety_level r = safety_level opt \<and>
            priority_score r =
              min 10.0
                 (priority_score opt * 1.2
                    * (if experience_level prefs = BEGINNER \<and> safety_level opt = HIGH
                       then 0.7 else 1)
                    * (if budget_range prefs = BUDGET \<and> cost_max (cost_range opt) < 1000
                       then 1.1 else 1)))
     \<and> (\<forall>goal \<in> set (primary_goals prefs). \<forall>candidate.
          adjust_priority_score candidate goal prefs =
            min 10.0
               (priority_score candidate * 1.2
                  * (if experience_level prefs = BEGINNER \<and> safety_level candidate = HIGH
                     then 0.7 else 1)
                  * (if budget_range prefs = BUDGET \<and> cost_max (cost_range candidate) < 1000
                     then 1.1 else 1)))"
proof (intro conjI)
  from all_recommendations_origin [OF assms] obtain filters goal cat opt where
    goal: "goal \<in> set (primary_goals prefs)" and
    opt: "opt \<in> set (get_tuning_options_for_category cat)" and
    c: "consider_option car prefs goal (resolve_max_budget prefs) filters cat opt = Some r"
    by blast
  from consider_option_score [OF c goal] consider_option_Some [OF c] goal opt
  show "\<exists>goal \<in> set (primary_goals prefs). \<exists>cat.
          \<exists>opt \<in> set (get_tuning_options_for_category cat).
            category r = cat \<and> name r = name opt \<and> cost_range r = cost_range opt \<and>
            safety_level r = safety_level opt \<and>
            priority_score r =
              min 10.0
                 (priority_score opt * 1.2
                    * (if experience_level prefs = BEGINNER \<and> safety_level opt = HIGH
                       then 0.7 else 1)
                    * (if budget_range prefs = BUDGET \<and> cost_max (cost_range opt) < 1000
                       then 1.1 else 1))"
    by blast
  show "\<forall>goal \<in> set (primary_goals prefs). \<forall>candidate.
          adjust_priority_score candidate goal prefs =
            min 10.0
               (priority_score candidate * 1.2
                  * (if experience_level prefs = BEGINNER \<and> safety_level candidate = HIGH
                     then 0.7 else 1)
                  * (if budget_range prefs = BUDGET \<and> cost_max (cost_range candidate) < 1000
                     then 1.1 else 1))"
    by (simp add: adjust_priority_score_formula)
qed

theorem C8_adjusted_score_witness:
  "\<exists>all_recs.
     all_recommendations toyota_camry scenario_c_prefs = Inr all_recs
     \<and> recommend cold_air_intake_system AIR_INTAKE 8.58 \<in> set all_recs
     \<and> FUEL_ECONOMY \<in> set (primary_goals scenario_c_prefs)
     \<and> adjust_priority_score (recommend cold_air_intake_system AIR_INTAKE 6.5)
          FUEL_ECONOMY scenario_c_prefs = 8.58"
proof -
  let ?all = "[
     recommend lowering_springs SUSPENSION 7.92,
     recommend lightweight_wheels TIRES_WHEELS 7.8,
     recommend cold_air_intake_system AIR_INTAKE 8.58,
     recommend performance_air_filter AIR_INTAKE 6.6,
     recommend lightweight_wheels TIRES_WHEELS 7.8]"
  let ?candidate = "recommend cold_air_intake_system AIR_INTAKE 6.5"
  have a: "all_recommendations toyota_camry scenario_c_prefs = Inr ?all"
    by (rule scenario_c_working_list)
  have m: "recommend cold_air_intake_system AIR_INTAKE 8.58 \<in> set ?all"
    by simp
  have goal: "FUEL_ECONOMY \<in> set (primary_goals scenario_c_prefs)"
    by (simp add: scenario_c_fields)
  from C8_adjusted_score [OF a m]
  have "\<forall>goal \<in> set (primary_goals scenario_c_prefs). \<forall>candidate.
          adjust_priority_score candidate goal scenario_c_prefs =
            min 10.0
               (priority_score candidate * 1.2
                  * (if experience_level scenario_c_prefs = BEGINNER \<and> safety_level candidate = HIGH
                     then 0.7 else 1)
                  * (if budget_range scenario_c_prefs = BUDGET \<and> cost_max (cost_range candidate) < 1000
                     then 1.1 else 1))"
    by (rule conjunct2)
  with goal have "adjust_priority_score ?candidate FUEL_ECONOMY scenario_c_prefs =
            min 10.0
               (priority_score ?candidate * 1.2
                  * (if experience_level scenario_c_prefs = BEGINNER \<and> safety_level ?candidate = HIGH
                     then 0.7 else 1)
                  * (if budget_range scenario_c_prefs = BUDGET \<and> cost_max (cost_range ?candidate) < 1000
                     then 1.1 else 1))"
    by blast
  also have "\<dots> = 8.58"
    by (simp add: scenario_c_fields kb_safety_level kb_cost_range)
  finally have s: "adjust_priority_score ?candidate FUEL_ECONOMY scenario_c_prefs = 8.58" .
  from a m goal s show ?thesis
    by (intro exI [where x = "?all"] conjI) assumption+
qed

subsection \<open>C9: a request without goals\<close>

text \<open>
  C9: with an empty list of goals the engine raises no error and returns a complete
  report: no recommendation, a total cost of 0 to 0 in USD, empty matrix and summaries,
  the fixed disclaimer and the timestamp.
\<close>

theorem C9_empty_goals:
  assumes "primary_goals prefs = []"
  shows "generate_recommendations now car prefs =
     Inr \<lparr>car_info = car, user_preferences = prefs, recommendations = [],
          total_estimated_cost = \<lparr>total_min = 0, total_max = 0, currency = ''USD''\<rparr>,
          compatibility_matrix = [],
          safety_summary = \<lparr>high_risk = {}, medium_risk = {}, low_risk = {}\<rparr>,
          legal_summary = \<lparr>warranty_impacts = {}, emissions_impacts = {},
            insurance_impacts = {}, legal_considerations_summary = {}\<rparr>,
          disclaimer = generate_disclaimer car prefs, generated_at = now\<rparr>"
proof -
  obtain filters where "map_of experience_filters (experience_level prefs) = Some filters"
    using experience_filters_total by blast
  with assms have "all_recommendations car prefs = Inr []"
    by (simp add: all_recommendations_def)
  then show ?thesis
    by (simp add: generate_recommendations_def deduplicate_recommendations_def
        py_sorted_reverse_def filter_by_budget_def calculate_total_cost_def
        generate_compatibility_matrix_def generate_safety_summary_def
        generate_legal_summary_def)
qed

theorem C9_empty_goals_witness:
  "primary_goals empty_goals_prefs = []
   \<and> generate_recommendations timestamp toyota_camry empty_goals_prefs =
     Inr \<lparr>car_info = toyota_camry, user_preferences = empty_goals_prefs, recommendations = [],
          total_estimated_cost = \<lparr>total_min = 0, total_max = 0, currency = ''USD''\<rparr>,
          compatibility_matrix = [],
          safety_summary = \<lparr>high_risk = {}, medium_risk = {}, low_risk = {}\<rparr>,
          legal_summary = \<lparr>warranty_impacts = {}, emissions_impacts = {},
            insurance_impacts = {}, legal_considerations_summary = {}\<rparr>,
          disclaimer = generate_disclaimer toyota_camry empty_goals_prefs, generated_at = timestamp\<rparr>"
proof -
  have e: "primary_goals empty_goals_prefs = []"
    by (simp add: empty_goals_prefs_def)
  from e C9_empty_goals [OF e, of timestamp toyota_camry] show ?thesis
    by (intro conjI)
qed

subsection \<open>C10: only high-risk options for intermediate and advanced users\<close>

text \<open>
  C10: for an intermediate or advanced user every emitted recommendation has safety level
  high. The ceiling of both levels is high and the ceiling test compares the value
  strings: \<^verbatim>\<open>"low"\<close> and \<^verbatim>\<open>"medium"\<close> are both greater than \<^verbatim>\<open>"high"\<close>, so the filter
  of these levels rejects every option whose level is low or medium.
\<close>

theorem C10_only_high_risk_emitted:
  assumes "experience_level prefs = INTERMEDIATE \<or> experience_level prefs = ADVANCED"
    and "generate_recommendations now car prefs = Inr report"
    and "r \<in> set (recommendations report)"
  shows "safety_level r = HIGH
     \<and> SafetyLevel_value LOW > SafetyLevel_value HIGH
     \<and> SafetyLevel_value MEDIUM > SafetyLevel_value HIGH
     \<and> (\<forall>filters opt.
           map_of experience_filters (experience_level prefs) = Some filters \<longrightarrow>
           safety_level opt \<noteq> HIGH \<longrightarrow> \<not> passes_experience_filters opt filters)"
proof (intro conjI allI impI)
  from emitted_origin [OF assms(2,3)] obtain filters goal cat opt where
    f: "map_of experience_filters (experience_level prefs) = Some filters" and
    c: "consider_option car prefs goal (resolve_max_budget prefs) filters cat opt = Some r"
    by blast
  from assms(1) f have "max_safety_level filters = HIGH"
    by (auto intro: filters_not_beginner)
  moreover from c have "\<not> exceeds_max_safety_level opt filters"
    by (auto dest: consider_option_Some(1) simp: passes_experience_filters_def
        split: if_splits)
  ultimately have "safety_level opt = HIGH" by (rule ceiling_high_only)
  with c show "safety_level r = HIGH" by (simp add: consider_option_Some(6))
  show "SafetyLevel_value LOW > SafetyLevel_value HIGH" by simp
  show "SafetyLevel_value MEDIUM > SafetyLevel_value HIGH" by simp
next
  fix filters and opt :: TuningOption
  assume f: "map_of experience_filters (experience_level prefs) = Some filters"
    and o: "safety_level opt \<noteq> HIGH"
  from assms(1) f have "max_safety_level filters = HIGH"
    by (auto intro: filters_not_beginner)
  with o have "exceeds_max_safety_level opt filters"
    using ceiling_high_only by blast
  then show "\<not> passes_experience_filters opt filters"
    by (simp add: passes_experience_filters_def)
qed

theorem C10_only_high_risk_emitted_witness:
  "(experience_level scenario_a_prefs = INTERMEDIATE
      \<or> experience_level scenario_a_prefs = ADVANCED)
   \<and> (\<exists>report.
         generate_recommendations timestamp bmw_3_series scenario_a_prefs = Inr report
         \<and> recommend big_brake_kit BRAKE_SYSTEM 10.0 \<in> set (recommendations report)
         \<and> safety_level (recommend big_brake_kit BRAKE_SYSTEM 10.0) = HIGH
         \<and> map name (recommendations report) = [''Stage 2 ECU Remap'', ''Big Brake Kit''])"
proof -
  obtain report where
    g: "generate_recommendations timestamp bmw_3_series scenario_a_prefs = Inr report"
    using generate_recommendations_returns by blast
  note recs = scenario_a_recommendations [OF g]
  have lvl: "experience_level scenario_a_prefs = INTERMEDIATE
      \<or> experience_level scenario_a_prefs = ADVANCED"
    by (simp add: scenario_a_fields)
  have m: "recommend big_brake_kit BRAKE_SYSTEM 10.0 \<in> set (recommendations report)"
    unfolding recs by simp
  from C10_only_high_risk_emitted [OF lvl g m]
  have h: "safety_level (recommend big_brake_kit BRAKE_SYSTEM 10.0) = HIGH"
    by (rule conjunct1)
  have n: "map name (recommendations report) = [''Stage 2 ECU Remap'', ''Big Brake Kit'']"
    unfolding recs by (simp add: kb_name)
  from lvl g m h n show ?thesis
    by (intro exI [where x = report] conjI) assumption+
qed

end
